theory Spec2Isabelle
  imports Complex_Main
begin

section \<open>Strings\<close>

text \<open>
  A JavaScript string is modelled by the bytes of its UTF-8 encoding (\<open>string\<close> is a list of
  8-bit characters). The terminal, the subprocess pipes and the file system all carry
  bytes, and every literal of the program except one dash in the banner is ASCII.
\<close>

text \<open>
  \<open>String.prototype.trim\<close> removes WhiteSpace and LineTerminator code points from both
  ends. These are their UTF-8 encodings: TAB, LF, VT, FF, CR, SP, U+00A0, U+1680,
  U+2000 .. U+200A, U+2028, U+2029, U+202F, U+205F, U+3000, U+FEFF.
\<close>

definition whitespace :: "string list" where
  "whitespace =
     [[CHR 0x09], [CHR 0x0A], [CHR 0x0B], [CHR 0x0C], [CHR 0x0D], [CHR 0x20],
      [CHR 0xC2, CHR 0xA0], [CHR 0xE1, CHR 0x9A, CHR 0x80],
      [CHR 0xE2, CHR 0x80, CHR 0x80], [CHR 0xE2, CHR 0x80, CHR 0x81],
      [CHR 0xE2, CHR 0x80, CHR 0x82], [CHR 0xE2, CHR 0x80, CHR 0x83],
      [CHR 0xE2, CHR 0x80, CHR 0x84], [CHR 0xE2, CHR 0x80, CHR 0x85],
      [CHR 0xE2, CHR 0x80, CHR 0x86], [CHR 0xE2, CHR 0x80, CHR 0x87],
      [CHR 0xE2, CHR 0x80, CHR 0x88], [CHR 0xE2, CHR 0x80, CHR 0x89],
      [CHR 0xE2, CHR 0x80, CHR 0x8A], [CHR 0xE2, CHR 0x80, CHR 0xA8],
      [CHR 0xE2, CHR 0x80, CHR 0xA9], [CHR 0xE2, CHR 0x80, CHR 0xAF],
      [CHR 0xE2, CHR 0x81, CHR 0x9F], [CHR 0xE3, CHR 0x80, CHR 0x80],
      [CHR 0xEF, CHR 0xBB, CHR 0xBF]]"

definition startsWith :: "string \<Rightarrow> string \<Rightarrow> bool" where
  "startsWith s p = (take (length p) s = p)"

text \<open>Strip, from the front of \<open>s\<close>, every leading occurrence of one of the patterns.\<close>

function stripLeading :: "string list \<Rightarrow> string \<Rightarrow> string" where
  "stripLeading ps s =
     (case find (\<lambda>p. p \<noteq> [] \<and> startsWith s p) ps of
        None \<Rightarrow> s
      | Some p \<Rightarrow> stripLeading ps (drop (length p) s))"
  by pat_completeness auto
termination
proof (relation "measure (\<lambda>(ps, s). length s)")
  show "wf (measure (\<lambda>(ps, s). length s))" by simp
next
  fix ps :: "string list" and s p :: string
  assume "find (\<lambda>p. p \<noteq> [] \<and> startsWith s p) ps = Some p"
  then have "p \<noteq> []" and "startsWith s p"
    by (auto simp: find_Some_iff)
  then have "length p \<le> length s" and "length p \<noteq> 0"
    by (auto simp: startsWith_def dest: arg_cong [where f = length])
  then have "length s - length p < length s"
    by arith
  then show "((ps, drop (length p) s), (ps, s)) \<in> measure (\<lambda>(ps, s). length s)"
    by simp
qed

declare stripLeading.simps [simp del]

definition trimStart :: "string \<Rightarrow> string" where
  "trimStart s = stripLeading whitespace s"

definition trimEnd :: "string \<Rightarrow> string" where
  "trimEnd s = rev (stripLeading (map rev whitespace) (rev s))"

definition trim :: "string \<Rightarrow> string" where
  "trim s = trimEnd (trimStart s)"

text \<open>
  \<open>String.prototype.toLowerCase\<close>, on the ASCII letters. The full Unicode mapping also
  changes letters outside ASCII, but it maps no other character to an ASCII \<open>y\<close> or
  \<open>n\<close> and deletes none, so the comparisons of \<open>confirm\<close> with \<open>"y"\<close>, \<open>"n"\<close> and
  \<open>""\<close>, the only use the program makes of the result, come out the same.
\<close>

definition lowerChar :: "char \<Rightarrow> char" where
  "lowerChar c =
     (let n = (of_char c :: nat) in if 65 \<le> n \<and> n \<le> 90 then char_of (n + 32) else c)"

definition toLowerCase :: "string \<Rightarrow> string" where
  "toLowerCase s = map lowerChar s"

section \<open>Effects\<close>

text \<open>
  The program is a sequence of subprocess calls, terminal prompts and file operations.
  Each one is recorded, in program order, as an event of the trace. What the outside
  world answers (exit codes, output, what the user types) is read from a \<open>world\<close>.
\<close>

text \<open>
  A JavaScript number as far as the program needs one: the result of \<open>Number(text)\<close>.
  \<open>JNum v\<close> stands for the binary64 value nearest to the rational \<open>v\<close>.
\<close>

datatype jsnum = JNaN | JNum rat | JInfinity | JNegInfinity

datatype event =
    ExistsSync string
      \<comment> \<open>\<open>fs.existsSync(path)\<close>\<close>
  | ExecFile string "string list" "string option"
      \<comment> \<open>\<open>execFileSync(file, args, {cwd})\<close>\<close>
  | Pgrep
      \<comment> \<open>the shell command \<open>pgrep UltiMaker-Cura\<close>\<close>
  | Kill jsnum
      \<comment> \<open>the shell command \<open>kill ${pid}\<close>\<close>
  | DiffIndex string
      \<comment> \<open>the shell command \<open>git -C ${curaDirectory} diff-index --exit-code HEAD\<close>\<close>
  | Question string
      \<comment> \<open>\<open>rl.question(prompt, ...)\<close>\<close>
  | Log string
      \<comment> \<open>\<open>console.log(text)\<close>\<close>
  | LogShellOutput nat string string
      \<comment> \<open>\<open>console.log(res)\<close> of a shell result: exit code, stdout, stderr\<close>
  | ConsoleError string
      \<comment> \<open>\<open>console.error(text)\<close>\<close>
  | WriteFile string string
      \<comment> \<open>\<open>fs.writeFileSync(path, content)\<close>\<close>
  | Sleep nat
      \<comment> \<open>\<open>sleep(ms)\<close>\<close>

datatype error =
    UnknownOS
  | CuraDirectoryNotFound
  | GitNotInstalled
  | UnsupportedCuraVersion
  | UnknownOption string
      \<comment> \<open>\<open>parseArgs\<close> in strict mode, with the offending argument\<close>
  | CuraStillRunning
      \<comment> \<open>\<open>new Error("Exiting: cura is still running")\<close>\<close>
  | NoProcessNumber
      \<comment> \<open>\<open>new Error("No process number returned")\<close>\<close>
  | PgrepWeird
      \<comment> \<open>\<open>new Error("pgrep Cura returned something weird")\<close>\<close>
  | KillFailed string
      \<comment> \<open>\<open>throw res.stderr\<close>\<close>
  | ExecFileFailed string "string list"
      \<comment> \<open>\<open>execFileSync\<close> throws: the child could not be spawned or exited non-zero\<close>
  | WriteFileFailed string
      \<comment> \<open>\<open>fs.writeFileSync\<close> throws\<close>

text \<open>
  How a computation ends: it returns a value, calls \<open>process.exit(code)\<close>, throws, or
  waits for a line of terminal input that never comes.
\<close>

datatype 'a res = Ret 'a | Exit nat | Throw error | Blocked

record state =
  lines :: "string list"
  trace :: "event list"

type_synonym 'a prog = "state \<Rightarrow> 'a res \<times> state"

definition ret :: "'a \<Rightarrow> 'a prog" where
  "ret x s = (Ret x, s)"

definition exit :: "nat \<Rightarrow> 'a prog" where
  "exit code s = (Exit code, s)"

definition throw :: "error \<Rightarrow> 'a prog" where
  "throw e s = (Throw e, s)"

definition emit :: "event \<Rightarrow> unit prog" where
  "emit e s = (Ret (), s\<lparr>trace := trace s @ [e]\<rparr>)"

text \<open>Sequencing: the rest of the code runs only when the first part returns.\<close>

definition bnd :: "'a prog \<Rightarrow> ('a \<Rightarrow> 'b prog) \<Rightarrow> 'b prog" where
  "bnd m f s =
     (case m s of
        (Ret x, s') \<Rightarrow> f x s'
      | (Exit code, s') \<Rightarrow> (Exit code, s')
      | (Throw e, s') \<Rightarrow> (Throw e, s')
      | (Blocked, s') \<Rightarrow> (Blocked, s'))"

text \<open>
  How a run ends the process. \<open>process.exit(code)\<close> ends it with that status. An error
  thrown at module level or out of \<open>main\<close>, which is called without a handler, is
  uncaught: the runtime reports it on the standard error stream and ends the process
  with status 1. A run that waits for input has not ended the process.
\<close>

definition exitStatus :: "'a res \<Rightarrow> nat option" where
  "exitStatus r =
     (case r of Exit code \<Rightarrow> Some code | Throw e \<Rightarrow> Some 1 | Ret x \<Rightarrow> None | Blocked \<Rightarrow> None)"

text \<open>
  The runtime's report of an uncaught error shows the stack trace of an \<open>Error\<close> object.
  Every error of the program is one, except the standard error output of \<open>kill\<close> that
  \<open>killProcess\<close> throws as it is.
\<close>

definition stackTrace :: "'a res \<Rightarrow> bool" where
  "stackTrace r =
     (case r of
        Throw e \<Rightarrow> (case e of KillFailed err \<Rightarrow> False | _ \<Rightarrow> True)
      | _ \<Rightarrow> False)"

section \<open>Interactive prompter\<close>

datatype yn = Yes | No

definition confirmPrompt :: "string \<Rightarrow> yn option \<Rightarrow> string" where
  "confirmPrompt q defaultAnswer =
     q @ '' '' @
     (case defaultAnswer of Some Yes \<Rightarrow> ''(Y/n)'' | Some No \<Rightarrow> ''(y/N)'' | None \<Rightarrow> ''(y/n)'')
     @ '' ''"

text \<open>
  The loop of \<open>confirm\<close> over the lines the user types. Every iteration asks the
  question again; with no line left the question is never answered.
\<close>

fun confirmLoop :: "string \<Rightarrow> yn option \<Rightarrow> string list \<Rightarrow> event list \<Rightarrow> yn option res \<times> state" where
  "confirmLoop q defaultAnswer [] tr =
     (Blocked, \<lparr>lines = [], trace = tr @ [Question (confirmPrompt q defaultAnswer)]\<rparr>)"
| "confirmLoop q defaultAnswer (line # rest) tr =
     (let tr' = tr @ [Question (confirmPrompt q defaultAnswer)];
          l = toLowerCase (trim line)
      in if l = ''y'' then (Ret (Some Yes), \<lparr>lines = rest, trace = tr'\<rparr>)
         else if l = ''n'' then (Ret (Some No), \<lparr>lines = rest, trace = tr'\<rparr>)
         else if l = '''' then (Ret defaultAnswer, \<lparr>lines = rest, trace = tr'\<rparr>)
         else confirmLoop q defaultAnswer rest tr')"

definition confirm :: "string \<Rightarrow> yn option \<Rightarrow> yn option prog" where
  "confirm q defaultAnswer s = confirmLoop q defaultAnswer (lines s) (trace s)"

definition askPrompt :: "string \<Rightarrow> string option \<Rightarrow> string" where
  "askPrompt q defaultAnswer =
     q @ (case defaultAnswer of
            None \<Rightarrow> ''''
          | Some d \<Rightarrow> if d = '''' then '''' else '' ('' @ d @ '')'')
     @ '' ''"

fun askLoop :: "string \<Rightarrow> string option \<Rightarrow> string list \<Rightarrow> event list \<Rightarrow> string res \<times> state" where
  "askLoop q defaultAnswer [] tr =
     (Blocked, \<lparr>lines = [], trace = tr @ [Question (askPrompt q defaultAnswer)]\<rparr>)"
| "askLoop q defaultAnswer (line # rest) tr =
     (let tr' = tr @ [Question (askPrompt q defaultAnswer)];
          noDefault = (defaultAnswer = None \<or> defaultAnswer = Some '''')
      in if line = '''' \<and> noDefault then askLoop q defaultAnswer rest tr'
         else if line = '''' then
           (Ret (case defaultAnswer of Some d \<Rightarrow> d | None \<Rightarrow> ''''),
            \<lparr>lines = rest, trace = tr'\<rparr>)
         else (Ret line, \<lparr>lines = rest, trace = tr'\<rparr>))"

definition ask :: "string \<Rightarrow> string option \<Rightarrow> string prog" where
  "ask q defaultAnswer s = askLoop q defaultAnswer (lines s) (trace s)"

section \<open>Runtime library\<close>

text \<open>
  The program calls a few functions of its JavaScript runtime. They are not part of the
  repository; the ones whose result decides a branch or names a path are written out
  here after their documented behaviour.
\<close>

subsection \<open>\<open>Number(text)\<close>\<close>

definition digitOf :: "char \<Rightarrow> nat option" where
  "digitOf c =
     (let n = (of_char c :: nat)
      in if 48 \<le> n \<and> n \<le> 57 then Some (n - 48)
         else if 97 \<le> n \<and> n \<le> 102 then Some (n - 87)
         else if 65 \<le> n \<and> n \<le> 70 then Some (n - 55)
         else None)"

text \<open>The value of a run of digits in base \<open>b\<close>; the empty run has value 0.\<close>

fun digitsValue :: "nat \<Rightarrow> string \<Rightarrow> nat \<Rightarrow> nat option" where
  "digitsValue b [] acc = Some acc"
| "digitsValue b (c # cs) acc =
     (case digitOf c of
        None \<Rightarrow> None
      | Some d \<Rightarrow> if d < b then digitsValue b cs (acc * b + d) else None)"

definition digits :: "nat \<Rightarrow> string \<Rightarrow> nat option" where
  "digits b s = (if s = [] then None else digitsValue b s 0)"

text \<open>\<open>ExponentPart\<close> without its letter: an optional sign and at least one digit.\<close>

definition signedInteger :: "string \<Rightarrow> int option" where
  "signedInteger s =
     (case s of
        [] \<Rightarrow> None
      | c # cs \<Rightarrow>
          if c = CHR ''-'' then map_option (\<lambda>n. - int n) (digits 10 cs)
          else if c = CHR ''+'' then map_option int (digits 10 cs)
          else map_option int (digits 10 s))"

text \<open>
  \<open>StrUnsignedDecimalLiteral\<close> other than \<open>Infinity\<close>: digits with an optional
  fraction and an optional exponent, or a fraction starting with the point.
\<close>

definition unsignedDecimal :: "string \<Rightarrow> rat option" where
  "unsignedDecimal s =
     (let mantissa = takeWhile (\<lambda>c. c \<noteq> CHR ''e'' \<and> c \<noteq> CHR ''E'') s;
          expPart = drop (length mantissa) s;
          intPart = takeWhile (\<lambda>c. c \<noteq> CHR ''.'') mantissa;
          fracPart = drop (Suc (length intPart)) mantissa;
          exponent = (if expPart = [] then Some 0 else signedInteger (tl expPart))
      in if intPart = [] \<and> fracPart = [] then None
         else
           (case (digitsValue 10 intPart 0, digitsValue 10 fracPart 0, exponent) of
              (Some i, Some f, Some e) \<Rightarrow>
                (let m = of_nat i + of_nat f / 10 ^ length fracPart
                 in Some (if 0 \<le> e then m * 10 ^ nat e else m / 10 ^ nat (- e)))
            | _ \<Rightarrow> None))"

text \<open>
  Values too large for binary64 become an infinity and values too small become zero;
  the rounding of the values in between is not modelled.
\<close>

definition roundNumber :: "rat \<Rightarrow> jsnum" where
  "roundNumber v =
     (if 2 ^ 1024 - 2 ^ 970 \<le> v then JInfinity
      else if v \<le> - (2 ^ 1024 - 2 ^ 970) then JNegInfinity
      else if \<bar>v\<bar> \<le> 1 / 2 ^ 1075 then JNum 0
      else JNum v)"

definition strDecimalLiteral :: "string \<Rightarrow> jsnum" where
  "strDecimalLiteral s =
     (let negative = startsWith s ''-'';
          body = (if startsWith s ''-'' \<or> startsWith s ''+'' then tl s else s)
      in if body = ''Infinity'' then (if negative then JNegInfinity else JInfinity)
         else
           (case unsignedDecimal body of
              None \<Rightarrow> JNaN
            | Some v \<Rightarrow> roundNumber (if negative then - v else v)))"

definition nonDecimal :: "nat \<Rightarrow> string \<Rightarrow> jsnum" where
  "nonDecimal b ds = (case digits b ds of None \<Rightarrow> JNaN | Some n \<Rightarrow> roundNumber (of_nat n))"

text \<open>\<open>Number(text)\<close>, that is \<open>StringToNumber\<close>: blank text is 0, a malformed literal is NaN.\<close>

definition Number :: "string \<Rightarrow> jsnum" where
  "Number text =
     (let s = trim text
      in if s = [] then JNum 0
         else if startsWith s ''0x'' \<or> startsWith s ''0X'' then nonDecimal 16 (drop 2 s)
         else if startsWith s ''0o'' \<or> startsWith s ''0O'' then nonDecimal 8 (drop 2 s)
         else if startsWith s ''0b'' \<or> startsWith s ''0B'' then nonDecimal 2 (drop 2 s)
         else strDecimalLiteral s)"

definition isNaN :: "jsnum \<Rightarrow> bool" where
  "isNaN n = (n = JNaN)"

text \<open>Truthiness of a number: neither NaN nor zero.\<close>

definition truthy :: "jsnum \<Rightarrow> bool" where
  "truthy n = (n \<noteq> JNaN \<and> n \<noteq> JNum 0)"

subsection \<open>Decimal text of a natural number\<close>

fun stringOfNat :: "nat \<Rightarrow> string" where
  "stringOfNat n =
     (if n < 10 then [''0123456789'' ! n]
      else stringOfNat (n div 10) @ [''0123456789'' ! (n mod 10)])"

declare stringOfNat.simps [simp del]

subsection \<open>\<open>path.join\<close>\<close>

text \<open>Split at every separator, as \<open>String.prototype.split\<close> does.\<close>

fun splitOn :: "char \<Rightarrow> string \<Rightarrow> string list" where
  "splitOn sep [] = [[]]"
| "splitOn sep (c # cs) =
     (if c = sep then [] # splitOn sep cs
      else (case splitOn sep cs of
              [] \<Rightarrow> [[c]]
            | seg # segs \<Rightarrow> (c # seg) # segs))"

fun joinWith :: "string \<Rightarrow> string list \<Rightarrow> string" where
  "joinWith sep [] = []"
| "joinWith sep [seg] = seg"
| "joinWith sep (seg # segs) = seg @ sep @ joinWith sep segs"

text \<open>
  The segments of a normalised path, kept in reverse: empty and \<open>.\<close> segments go, and
  \<open>..\<close> removes the segment before it, or stays when the path may climb above its start.
\<close>

fun normalizeSegments :: "bool \<Rightarrow> string list \<Rightarrow> string list \<Rightarrow> string list" where
  "normalizeSegments allowAboveRoot acc [] = acc"
| "normalizeSegments allowAboveRoot acc (seg # segs) =
     (if seg = '''' \<or> seg = ''.'' then normalizeSegments allowAboveRoot acc segs
      else if seg = ''..'' then
        (case acc of
           [] \<Rightarrow> normalizeSegments allowAboveRoot
                  (if allowAboveRoot then [''..''] else []) segs
         | lastSeg # earlier \<Rightarrow>
             if lastSeg = ''..'' then
               normalizeSegments allowAboveRoot (if allowAboveRoot then ''..'' # acc else acc) segs
             else normalizeSegments allowAboveRoot earlier segs)
      else normalizeSegments allowAboveRoot (seg # acc) segs)"

definition posixNormalize :: "string \<Rightarrow> string" where
  "posixNormalize p =
     (if p = [] then ''.''
      else
        (let isAbsolute = (hd p = CHR ''/'');
             trailingSeparator = (last p = CHR ''/'');
             body = joinWith ''/''
                      (rev (normalizeSegments (\<not> isAbsolute) [] (splitOn (CHR ''/'') p)))
         in if body = [] then
              (if isAbsolute then ''/'' else if trailingSeparator then ''./'' else ''.'')
            else (if isAbsolute then ''/'' else '''') @ body
                 @ (if trailingSeparator then ''/'' else '''')))"

definition posixJoin :: "string \<Rightarrow> string \<Rightarrow> string" where
  "posixJoin a b =
     (let parts = filter (\<lambda>p. p \<noteq> []) [a, b]
      in if parts = [] then ''.'' else posixNormalize (joinWith ''/'' parts))"

subsection \<open>\<open>util.parseArgs\<close>\<close>

text \<open>
  \<open>parseArgs({args, strict: true, allowPositionals: true})\<close> with no option declared.
  Every argument of two or more characters that starts with a dash is an option, except
  the terminator \<open>--\<close>, after which all arguments are positionals; a single dash is a
  positional. No option is declared, so strict mode throws at the first option.
\<close>

definition isOptionArg :: "string \<Rightarrow> bool" where
  "isOptionArg arg = (2 \<le> length arg \<and> hd arg = CHR ''-'' \<and> arg \<noteq> ''--'')"

fun parseArgs :: "string list \<Rightarrow> error + string list" where
  "parseArgs [] = Inr []"
| "parseArgs (arg # rest) =
     (if arg = ''--'' then Inr rest
      else if isOptionArg arg then Inl (UnknownOption arg)
      else (case parseArgs rest of
              Inl e \<Rightarrow> Inl e
            | Inr positionals \<Rightarrow> Inr (arg # positionals)))"

text \<open>\<open>xs[i]\<close> of a JavaScript array: \<open>undefined\<close> (here \<open>None\<close>) out of range.\<close>

definition index :: "'a list \<Rightarrow> nat \<Rightarrow> 'a option" where
  "index xs i = (if i < length xs then Some (xs ! i) else None)"

section \<open>The outside world\<close>

text \<open>
  Everything the program reads from its environment during one run. Each field is what
  the corresponding call answers; the program cannot influence it.
\<close>

record world =
  platform :: string
    \<comment> \<open>\<open>os.platform()\<close>\<close>
  username :: string
    \<comment> \<open>\<open>os.userInfo().username\<close>\<close>
  argv :: "string list"
    \<comment> \<open>\<open>Bun.argv\<close>: the interpreter, the script, then the user's arguments\<close>
  stdin :: "string list"
    \<comment> \<open>the lines the user types, in order\<close>
  pathExists :: "string \<Rightarrow> bool"
    \<comment> \<open>\<open>fs.existsSync\<close>\<close>
  execFails :: "string \<Rightarrow> string list \<Rightarrow> bool"
    \<comment> \<open>whether \<open>execFileSync(file, args)\<close> throws\<close>
  diffStat :: string
    \<comment> \<open>standard output of \<open>git diff --staged --stat\<close>\<close>
  pgrepExit :: nat
  pgrepStdout :: string
  pgrepStderr :: string
  killExit :: nat
  killStderr :: string
  diffIndexExit :: nat
    \<comment> \<open>exit code of \<open>git diff-index --exit-code HEAD\<close>\<close>
  now :: nat
    \<comment> \<open>\<open>Date.now()\<close>: milliseconds since the epoch\<close>
  urlParses :: "string \<Rightarrow> bool"
    \<comment> \<open>whether \<open>new URL(text)\<close> returns rather than throws\<close>
  writeFails :: "string \<Rightarrow> bool"
    \<comment> \<open>whether \<open>fs.writeFileSync(path, ...)\<close> throws\<close>
  win32Join :: "string \<Rightarrow> string \<Rightarrow> string"
    \<comment> \<open>\<open>path.win32.join\<close>, which \<open>path.join\<close> is on Windows\<close>

text \<open>The module-level constants computed before \<open>main\<close> runs.\<close>

record globals =
  curaDirectory :: string
  isGitInitialized :: bool

section \<open>Primitive calls\<close>

definition existsSync :: "world \<Rightarrow> string \<Rightarrow> bool prog" where
  "existsSync w p = bnd (emit (ExistsSync p)) (\<lambda>_. ret (pathExists w p))"

definition execFileSync :: "world \<Rightarrow> string \<Rightarrow> string list \<Rightarrow> string option \<Rightarrow> unit prog" where
  "execFileSync w file args cwd =
     bnd (emit (ExecFile file args cwd)) (\<lambda>_.
       if execFails w file args then throw (ExecFileFailed file args) else ret ())"

definition writeFileSync :: "world \<Rightarrow> string \<Rightarrow> string \<Rightarrow> unit prog" where
  "writeFileSync w p content =
     bnd (emit (WriteFile p content)) (\<lambda>_.
       if writeFails w p then throw (WriteFileFailed p) else ret ())"

text \<open>A call of a function without effects that returns or throws.\<close>

definition liftE :: "error + 'a \<Rightarrow> 'a prog" where
  "liftE v = (case v of Inl e \<Rightarrow> throw e | Inr x \<Rightarrow> ret x)"

definition pathJoin :: "world \<Rightarrow> string \<Rightarrow> string \<Rightarrow> string" where
  "pathJoin w a b = (if platform w = ''win32'' then win32Join w a b else posixJoin a b)"

section \<open>The program\<close>

definition gitignoreContent :: string where
  "gitignoreContent =
     ''.DS_Store\<newline>**/.DS_Store\<newline>5.6/cache\<newline>5.6/cura.log\<newline>5.6/cura.log.*''"

text \<open>
  \<open>getOperatingSystem\<close> and \<open>getDefaultCuraDirectory\<close> have no effect; they return a
  value or throw.
\<close>

definition getOperatingSystem :: "world \<Rightarrow> error + string" where
  "getOperatingSystem w =
     (if platform w = ''darwin'' then Inr ''MacOS''
      else if platform w = ''win32'' then Inr ''Windows''
      else if platform w = ''linux'' then Inr ''Linux''
      else Inl UnknownOS)"

definition backslash :: string where
  "backslash = [CHR 0x5C]"

definition getDefaultCuraDirectory :: "world \<Rightarrow> error + string" where
  "getDefaultCuraDirectory w =
     (let currentUser = username w
      in case getOperatingSystem w of
           Inl e \<Rightarrow> Inl e
         | Inr osType \<Rightarrow>
             if osType = ''MacOS'' then
               Inr (''/Users/'' @ currentUser @ ''/Library/Application Support/cura'')
             else if osType = ''Windows'' then
               Inr (''C:'' @ backslash @ ''Users'' @ backslash @ currentUser @ backslash
                    @ ''AppData'' @ backslash @ ''Roaming'' @ backslash @ ''cura'')
             else if osType = ''Linux'' then
               Inr (''/home/'' @ currentUser @ ''/.local/share/cura'')
             else Inl UnknownOS)"

definition checkCuraDirectory :: "world \<Rightarrow> bool prog" where
  "checkCuraDirectory w =
     bnd (liftE (getDefaultCuraDirectory w)) (\<lambda>curaDirectory. existsSync w curaDirectory)"

text \<open>\<open>try { execFileSync(...); return true } catch { return false }\<close>\<close>

definition checkGitInstallation :: "world \<Rightarrow> bool prog" where
  "checkGitInstallation w =
     bnd (emit (ExecFile ''git'' [''--version''] None)) (\<lambda>_.
       ret (\<not> execFails w ''git'' [''--version'']))"

definition checkCuraVersionDirectory :: "world \<Rightarrow> string \<Rightarrow> bool prog" where
  "checkCuraVersionDirectory w dir = existsSync w (dir @ ''/5.6'')"

definition checkGitInitialization :: "world \<Rightarrow> string \<Rightarrow> bool prog" where
  "checkGitInitialization w dir =
     bnd (emit (ExecFile ''git'' [''status''] (Some dir))) (\<lambda>_.
       ret (\<not> execFails w ''git'' [''status'']))"

text \<open>The statements at module level, in file order, up to the call of \<open>main\<close>.\<close>

definition startup :: "world \<Rightarrow> globals prog" where
  "startup w =
     bnd (checkCuraDirectory w) (\<lambda>found.
     if \<not> found then throw CuraDirectoryNotFound else
     bnd (liftE (getDefaultCuraDirectory w)) (\<lambda>dir.
     bnd (checkGitInstallation w) (\<lambda>installed.
     if \<not> installed then throw GitNotInstalled else
     bnd (checkCuraVersionDirectory w dir) (\<lambda>versionFound.
     if \<not> versionFound then throw UnsupportedCuraVersion else
     bnd (checkGitInitialization w dir) (\<lambda>initialized.
     ret \<lparr>curaDirectory = dir, isGitInitialized = initialized\<rparr>)))))"

definition infoText :: "string \<Rightarrow> string \<Rightarrow> bool \<Rightarrow> string" where
  "infoText osName dir initialized =
     ''curasync (v0) '' @ [CHR 0xE2, CHR 0x80, CHR 0x94] @ '' lunaroyster\<newline>''
     @ ''    OS: '' @ osName @ ''\<newline>''
     @ ''    Cura Directory: '' @ dir @ ''\<newline>''
     @ ''    isInitialized?: '' @ (if initialized then ''true'' else ''false'')"

definition printInfo :: "world \<Rightarrow> globals \<Rightarrow> unit prog" where
  "printInfo w g =
     bnd (liftE (getOperatingSystem w)) (\<lambda>osName.
       emit (Log (infoText osName (curaDirectory g) (isGitInitialized g))))"

definition tab :: string where
  "tab = [CHR 0x09]"

definition helpText :: string where
  "helpText =
     ''curasync\<newline>''
     @ tab @ ''help'' @ tab @ ''print help screen\<newline>''
     @ tab @ ''init <repo_url>'' @ tab
       @ ''initialize curasync in your cura folder and push to <repo_url>\<newline>''
     @ tab @ ''clone <repo_url>'' @ tab
       @ ''clone a curasync remote into your cura directory\<newline>''
     @ tab @ ''pull'' @ tab @ ''grab changes from remote\<newline>''
     @ tab @ ''push'' @ tab @ ''push local changes to remote\<newline>''
     @ tab @ ''cwd'' @ tab @ ''print the cura directory''"

definition printHelp :: "unit prog" where
  "printHelp = emit (Log helpText)"

definition isValidUrl :: "world \<Rightarrow> string \<Rightarrow> bool" where
  "isValidUrl w url = urlParses w url"

subsection \<open>Process guard\<close>

definition getCuraPid :: "world \<Rightarrow> jsnum option prog" where
  "getCuraPid w =
     bnd (emit Pgrep) (\<lambda>_.
       if pgrepExit w = 1 \<and> length (pgrepStderr w) = 0 \<and> length (pgrepStdout w) = 0 then
         ret None
       else if pgrepExit w = 0 then
         (let num = Number (trim (pgrepStdout w))
          in if isNaN num then throw NoProcessNumber else ret (Some num))
       else
         bnd (emit (LogShellOutput (pgrepExit w) (pgrepStdout w) (pgrepStderr w))) (\<lambda>_.
           throw PgrepWeird))"

definition killProcess :: "world \<Rightarrow> jsnum \<Rightarrow> unit prog" where
  "killProcess w pid =
     bnd (emit (Kill pid)) (\<lambda>_.
       if killExit w \<noteq> 0 then throw (KillFailed (killStderr w)) else ret ())"

definition killPrompt :: string where
  "killPrompt =
     ''Cura is running. To proceed safely, you need to exit out of cura. Kill cura?''"

definition confirmAndKillCura :: "world \<Rightarrow> bool prog" where
  "confirmAndKillCura w =
     bnd (getCuraPid w) (\<lambda>curaPid.
       case curaPid of
         None \<Rightarrow> ret True
       | Some pid \<Rightarrow>
           bnd (confirm killPrompt (Some Yes)) (\<lambda>res.
             if res \<noteq> Some Yes then ret False
             else bnd (killProcess w pid) (\<lambda>_. ret True)))"

subsection \<open>Operations\<close>

definition initializeRepo :: "world \<Rightarrow> globals \<Rightarrow> string \<Rightarrow> unit prog" where
  "initializeRepo w g url =
     bnd (confirmAndKillCura w) (\<lambda>killRes.
     if \<not> killRes then throw CuraStillRunning else
     bnd (if isGitInitialized g
          then execFileSync w ''rm'' [''-rf'', ''.git''] (Some (curaDirectory g))
          else ret ()) (\<lambda>_.
     bnd (execFileSync w ''git'' [''init''] (Some (curaDirectory g))) (\<lambda>_.
     bnd (execFileSync w ''git'' [''remote'', ''add'', ''origin'', url]
            (Some (curaDirectory g))) (\<lambda>_.
     bnd (execFileSync w ''git'' [''add'', ''.''] (Some (curaDirectory g))) (\<lambda>_.
     bnd (execFileSync w ''git'' [''commit'', ''-m'', ''[curasync] init'']
            (Some (curaDirectory g))) (\<lambda>_.
     bnd (execFileSync w ''git'' [''push'', ''-u'', ''origin'', ''main'']
            (Some (curaDirectory g))) (\<lambda>_.
     writeFileSync w (pathJoin w (curaDirectory g) ''.gitignore'') gitignoreContent)))))))"

definition printDiff :: "world \<Rightarrow> globals \<Rightarrow> unit prog" where
  "printDiff w g =
     bnd (execFileSync w ''git'' [''diff'', ''--staged'', ''--stat''] (Some (curaDirectory g)))
       (\<lambda>_. emit (Log (trim (diffStat w))))"

definition isCuraDirty :: "world \<Rightarrow> globals \<Rightarrow> bool prog" where
  "isCuraDirty w g =
     bnd (emit (DiffIndex (curaDirectory g))) (\<lambda>_. ret (diffIndexExit w = 1))"

subsection \<open>Dispatcher\<close>

text \<open>
  The branches of \<open>main\<close>, one definition for each \<open>if\<close> block of its body.
  \<open>positionals[3]\<close> is \<open>undefined\<close> when no URL was given; \<open>new URL(undefined)\<close> throws,
  so \<open>isValidUrl\<close> is false for it. The clone branch declares its own \<open>curaDirectory\<close>
  and does not read the module-level constants.
\<close>

definition initPrompt :: string where
  "initPrompt =
     ''This command will turn your cura configuration folder into a git repo and ''
     @ ''push it into a blank repository. Use this if you want to share your config ''
     @ ''with others. Proceed?''"

definition overwritePrompt :: string where
  "overwritePrompt =
     ''Looks like the cura folder is already initialized as a repo. Do you ''
     @ ''want to go ahead anyway? This will overwrite the repo''"

definition clonePrompt :: string where
  "clonePrompt =
     ''This will clone the configuration from a given, existing repo into ''
     @ ''your cura directory. (Your current configuration will be backed up). ''
     @ ''Proceed?''"

definition quitPrompt :: string where
  "quitPrompt =
     ''Cura is currently running. Cura often saves configuration on exit. ''
     @ ''Would you like to quit Cura?''"

definition mainInit :: "world \<Rightarrow> globals \<Rightarrow> string list \<Rightarrow> unit prog" where
  "mainInit w g positionals =
     bnd (confirm initPrompt (Some No)) (\<lambda>res.
     if res \<noteq> Some Yes then exit 1 else
     bnd (if isGitInitialized g then
            bnd (confirm overwritePrompt (Some No)) (\<lambda>alreadyInitAsk.
              if alreadyInitAsk \<noteq> Some Yes then exit 1 else ret ())
          else ret ()) (\<lambda>_.
     case index positionals 3 of
       None \<Rightarrow>
         bnd (emit (ConsoleError ''Invalid URL. Please enter a valid URL.'')) (\<lambda>_. exit 1)
     | Some url \<Rightarrow>
         if \<not> isValidUrl w url then
           bnd (emit (ConsoleError ''Invalid URL. Please enter a valid URL.'')) (\<lambda>_. exit 1)
         else bnd (initializeRepo w g url) (\<lambda>_. exit 0)))"

definition mainClone :: "world \<Rightarrow> string list \<Rightarrow> unit prog" where
  "mainClone w positionals =
     (case index positionals 3 of
        None \<Rightarrow>
          bnd (emit (ConsoleError
                 ''No URL provided. Invocation: `curasync clone [repo url]`'')) (\<lambda>_. exit 1)
      | Some url \<Rightarrow>
          if url = '''' then
            bnd (emit (ConsoleError
                   ''No URL provided. Invocation: `curasync clone [repo url]`'')) (\<lambda>_. exit 1)
          else if \<not> isValidUrl w url then
            bnd (emit (ConsoleError (''Invalid URL provided for clone operation: '' @ url)))
              (\<lambda>_. exit 1)
          else
            bnd (confirm clonePrompt (Some No)) (\<lambda>askRes.
            if askRes \<noteq> Some Yes then exit 1 else
            bnd (confirmAndKillCura w) (\<lambda>killRes.
            if \<not> killRes then throw CuraStillRunning else
            bnd (emit (Log ''Backing up your current cura configuration...'')) (\<lambda>_.
            bnd (liftE (getDefaultCuraDirectory w)) (\<lambda>curaDirectory.
            let backupDirectory =
                  pathJoin w curaDirectory (''../cura_backup_'' @ stringOfNat (now w))
            in
            bnd (execFileSync w ''mv'' [curaDirectory, backupDirectory] None) (\<lambda>_.
            bnd (execFileSync w ''mkdir'' [curaDirectory] None) (\<lambda>_.
            bnd (emit (Log ''Cura folder has been backed up successfully.'')) (\<lambda>_.
            bnd (emit (Log (''Cloning from '' @ url @ ''...''))) (\<lambda>_.
            bnd (execFileSync w ''git'' [''clone'', url, ''.''] (Some curaDirectory)) (\<lambda>_.
            bnd (emit (Log ''Clone operation completed successfully. Try opening cura''))
              (\<lambda>_. exit 0)))))))))))"

definition mainPull :: "world \<Rightarrow> globals \<Rightarrow> unit prog" where
  "mainPull w g =
     bnd (emit (Log ''pulling config from origin...'')) (\<lambda>_.
     bnd (execFileSync w ''git'' [''pull''] (Some (curaDirectory g))) (\<lambda>_.
     bnd (emit (Log ''pulled config from origin!'')) (\<lambda>_. exit 0)))"

definition mainPush :: "world \<Rightarrow> globals \<Rightarrow> unit prog" where
  "mainPush w g =
     bnd (getCuraPid w) (\<lambda>curaPid.
     bnd (case curaPid of
            None \<Rightarrow> ret ()
          | Some pid \<Rightarrow>
              if truthy pid then
                bnd (confirm quitPrompt (Some Yes)) (\<lambda>quitCura.
                  if quitCura = Some Yes then
                    bnd (killProcess w pid) (\<lambda>_. emit (Sleep 1000))
                  else ret ())
              else ret ()) (\<lambda>_.
     bnd (isCuraDirty w g) (\<lambda>isDirty.
     if \<not> isDirty then
       bnd (emit (ConsoleError ''Looks like there are no changes to push'')) (\<lambda>_. exit 1)
     else
     bnd (emit (Log ''pushing config to origin'')) (\<lambda>_.
     bnd (execFileSync w ''git'' [''add'', ''.''] (Some (curaDirectory g))) (\<lambda>_.
     bnd (printDiff w g) (\<lambda>_.
     bnd (ask ''Enter a message describing what you changed:'' None) (\<lambda>commitMessage.
     bnd (execFileSync w ''git'' [''commit'', ''-m'', ''[curasync] '' @ commitMessage]
            (Some (curaDirectory g))) (\<lambda>_.
     bnd (execFileSync w ''git'' [''push''] (Some (curaDirectory g))) (\<lambda>_.
     bnd (emit (Log ''pushed config to origin!'')) (\<lambda>_. exit 0))))))))))"

definition mainCwd :: "globals \<Rightarrow> unit prog" where
  "mainCwd g = bnd (emit (Log (curaDirectory g))) (\<lambda>_. exit 0)"

definition main :: "world \<Rightarrow> globals \<Rightarrow> unit prog" where
  "main w g =
     (case parseArgs (argv w) of
        Inl e \<Rightarrow> throw e
      | Inr positionals \<Rightarrow>
          if length positionals = 2 then
            bnd (printInfo w g) (\<lambda>_. bnd printHelp (\<lambda>_. exit 0))
          else if index positionals 2 = Some ''help'' then bnd printHelp (\<lambda>_. exit 0)
          else if index positionals 2 = Some ''init'' then mainInit w g positionals
          else if index positionals 2 = Some ''clone'' then mainClone w positionals
          else if index positionals 2 = Some ''pull'' then mainPull w g
          else if index positionals 2 = Some ''push'' then mainPush w g
          else if index positionals 2 = Some ''cwd'' then mainCwd g
          else
            bnd (emit (ConsoleError
                   (''unrecognized command ''
                    @ (case index positionals 2 of None \<Rightarrow> ''undefined'' | Some c \<Rightarrow> c))))
              (\<lambda>_. bnd printHelp (\<lambda>_. exit 1)))"

text \<open>One run of the program: the module-level statements, then \<open>main\<close>.\<close>

definition run :: "world \<Rightarrow> unit res \<times> state" where
  "run w = bnd (startup w) (\<lambda>g. main w g) \<lparr>lines = stdin w, trace = []\<rparr>"

section \<open>Vocabulary of the properties\<close>

text \<open>The state in which a run begins: nothing read, nothing done.\<close>

definition initialState :: "world \<Rightarrow> state" where
  "initialState w = \<lparr>lines = stdin w, trace = []\<rparr>"

text \<open>What the module-level checks do when all of them pass, for the directory \<open>dir\<close>.\<close>

definition startupEvents :: "string \<Rightarrow> event list" where
  "startupEvents dir =
     [ExistsSync dir,
      ExecFile ''git'' [''--version''] None,
      ExistsSync (dir @ ''/5.6''),
      ExecFile ''git'' [''status''] (Some dir)]"

text \<open>
  The run gets past the module-level checks: the platform is known, the configuration
  directory \<open>dir\<close> and its \<open>5.6\<close> subdirectory exist, and git can be called.
\<close>

definition startupPasses :: "world \<Rightarrow> string \<Rightarrow> bool" where
  "startupPasses w dir =
     (getDefaultCuraDirectory w = Inr dir \<and> pathExists w dir
      \<and> \<not> execFails w ''git'' [''--version''] \<and> pathExists w (dir @ ''/5.6''))"

text \<open>The module-level constants after a start that passes.\<close>

definition globalsOf :: "world \<Rightarrow> string \<Rightarrow> globals" where
  "globalsOf w dir =
     \<lparr>curaDirectory = dir, isGitInitialized = (\<not> execFails w ''git'' [''status''])\<rparr>"

text \<open>The arguments parse, to \<open>positionals\<close>, and name the subcommand \<open>command\<close>.\<close>

definition invokes :: "world \<Rightarrow> string \<Rightarrow> string list \<Rightarrow> bool" where
  "invokes w command positionals =
     (parseArgs (argv w) = Inr positionals \<and> index positionals 2 = Some command)"

text \<open>
  Events that change the configuration directory or its repository: every subprocess
  started with \<open>execFileSync\<close> other than the read-only git commands, and every file
  written. Process lookup, prompts and terminal output change nothing on disk.
\<close>

fun mutating :: "event \<Rightarrow> bool" where
  "mutating (ExecFile file args cwd) =
     (file \<noteq> ''git''
      \<or> (args \<noteq> [''--version''] \<and> args \<noteq> [''status'']
          \<and> args \<noteq> [''diff'', ''--staged'', ''--stat'']))"
| "mutating (WriteFile p content) = True"
| "mutating e = False"

text \<open>Events that start a subprocess.\<close>

fun subprocess :: "event \<Rightarrow> bool" where
  "subprocess (ExecFile file args cwd) = True"
| "subprocess Pgrep = True"
| "subprocess (Kill pid) = True"
| "subprocess (DiffIndex dir) = True"
| "subprocess e = False"

text \<open>The process lookup reports that the companion application is not running.\<close>

definition notRunning :: "world \<Rightarrow> bool" where
  "notRunning w = (pgrepExit w = 1 \<and> pgrepStderr w = [] \<and> pgrepStdout w = [])"

text \<open>
  A line that ends the loop of \<open>confirm\<close>: after trimming and lowercasing it is
  \<open>y\<close>, \<open>n\<close> or empty.
\<close>

definition isAnswer :: "string \<Rightarrow> bool" where
  "isAnswer line =
     (toLowerCase (trim line) = ''y'' \<or> toLowerCase (trim line) = ''n''
      \<or> toLowerCase (trim line) = '''')"

text \<open>Every run of \<open>m\<close> only adds events to the trace, and each added event satisfies \<open>P\<close>.\<close>

definition emits :: "(event \<Rightarrow> bool) \<Rightarrow> 'a prog \<Rightarrow> bool" where
  "emits P m = (\<forall>s. \<exists>es. trace (snd (m s)) = trace s @ es \<and> list_all P es)"

text \<open>The read-only calls of the module-level checks.\<close>

fun probe :: "event \<Rightarrow> bool" where
  "probe (ExistsSync p) = True"
| "probe (ExecFile file args cwd) =
     (file = ''git'' \<and> (args = [''--version''] \<or> args = [''status'']))"
| "probe e = False"

text \<open>Prompts and the process lookup: what the program does before it is allowed to act.\<close>

fun promptOrLookup :: "event \<Rightarrow> bool" where
  "promptOrLookup (Question p) = True"
| "promptOrLookup Pgrep = True"
| "promptOrLookup e = False"

subsection \<open>An example world\<close>

text \<open>
  A Linux machine of the user \<open>ada\<close> on which every path exists, every subprocess
  succeeds, the companion application is not running and the working copy is clean.
  \<open>win32Join\<close> is not used on this platform.
\<close>

definition exampleUrl :: string where
  "exampleUrl = ''https://example.com/cura.git''"

definition exampleWorld :: world where
  "exampleWorld =
     \<lparr>platform = ''linux'', username = ''ada'', argv = [''bun'', ''curasync''], stdin = [],
      pathExists = (\<lambda>p. True), execFails = (\<lambda>file args. False), diffStat = '''',
      pgrepExit = 1, pgrepStdout = '''', pgrepStderr = '''',
      killExit = 0, killStderr = '''', diffIndexExit = 0, now = 1700000000123,
      urlParses = (\<lambda>u. u = exampleUrl), writeFails = (\<lambda>p. False),
      win32Join = (\<lambda>a b. a @ backslash @ b)\<rparr>"

definition exampleDirectory :: string where
  "exampleDirectory = ''/home/ada/.local/share/cura''"

text \<open>
  A \<open>clone\<close> run in which the companion application is found running and the user
  confirms both the operation and the termination.
\<close>

definition cloneAccepted :: world where
  "cloneAccepted =
     exampleWorld\<lparr>argv := [''bun'', ''curasync'', ''clone'', exampleUrl],
                  stdin := [''y'', ''y''], pgrepExit := 0, pgrepStdout := ''4242\<newline>''\<rparr>"

text \<open>
  Two runs in which the companion application is found running and the user, having
  confirmed everything before, answers \<open>n\<close> when asked whether to terminate it.
\<close>

definition cloneDeclined :: world where
  "cloneDeclined =
     exampleWorld\<lparr>argv := [''bun'', ''curasync'', ''clone'', exampleUrl],
                  stdin := [''y'', ''n''], pgrepExit := 0, pgrepStdout := ''4242\<newline>''\<rparr>"

definition initDeclined :: world where
  "initDeclined =
     exampleWorld\<lparr>argv := [''bun'', ''curasync'', ''init'', exampleUrl],
                  stdin := [''y'', ''y'', ''n''], pgrepExit := 0, pgrepStdout := ''4242\<newline>''\<rparr>"

text \<open>
  A \<open>push\<close> run with a clean working copy in which the companion application is found
  running and the user agrees to quit it.
\<close>

definition pushFound :: world where
  "pushFound =
     exampleWorld\<lparr>argv := [''bun'', ''curasync'', ''push''], stdin := [''y''],
                  pgrepExit := 0, pgrepStdout := ''4242\<newline>''\<rparr>"

text \<open>
  A \<open>push\<close> run with a clean working copy while two instances of the companion
  application are running: the lookup prints two process identifiers.
\<close>

definition pushTwoPids :: world where
  "pushTwoPids =
     exampleWorld\<lparr>argv := [''bun'', ''curasync'', ''push''],
                  pgrepExit := 0, pgrepStdout := ''4242\<newline>4343\<newline>''\<rparr>"

text \<open>
  What \<open>pgrep\<close> prints when it matches the processes \<open>pids\<close>: one decimal process
  identifier on each line.
\<close>

definition pgrepOutput :: "nat list \<Rightarrow> string" where
  "pgrepOutput pids = concat (map (\<lambda>pid. stringOfNat pid @ ''\<newline>'') pids)"

definition decimalDigit :: "char \<Rightarrow> bool" where
  "decimalDigit c = (c \<in> set ''0123456789'')"

text \<open>
  The evidence, among the events \<open>evs\<close>, that the process guard let the program
  through. There is a process lookup, and either it found no companion application, or
  it returned a process identifier and after it a termination signal was sent to that
  very identifier and was delivered.
\<close>

definition guardPassed :: "world \<Rightarrow> event list \<Rightarrow> bool" where
  "guardPassed w evs =
     (let afterLookup = dropWhile (\<lambda>e. e \<noteq> Pgrep) evs
      in afterLookup \<noteq> []
         \<and> (notRunning w
            \<or> (pgrepExit w = 0 \<and> Number (trim (pgrepStdout w)) \<noteq> JNaN
                \<and> Kill (Number (trim (pgrepStdout w))) \<in> set afterLookup
                \<and> killExit w = 0)))"

text \<open>
  Every run of \<open>m\<close> adds to the trace a part without mutating events and then a rest
  that is empty unless the first part holds the evidence that the guard was passed.
\<close>

definition guarded :: "world \<Rightarrow> 'a prog \<Rightarrow> bool" where
  "guarded w m =
     (\<forall>s. \<exists>pre post. trace (snd (m s)) = trace s @ pre @ post
        \<and> list_all (\<lambda>e. \<not> mutating e) pre
        \<and> (post \<noteq> [] \<longrightarrow> guardPassed w pre))"

text \<open>
  The steps of \<open>initializeRepo\<close> after the process guard, in program order. The removal
  of the old metadata is a step only when the directory was found to be a repository.
\<close>

definition initSteps :: "world \<Rightarrow> globals \<Rightarrow> string \<Rightarrow> event list" where
  "initSteps w g url =
     (if isGitInitialized g
      then [ExecFile ''rm'' [''-rf'', ''.git''] (Some (curaDirectory g))] else [])
     @ [ExecFile ''git'' [''init''] (Some (curaDirectory g)),
        ExecFile ''git'' [''remote'', ''add'', ''origin'', url] (Some (curaDirectory g)),
        ExecFile ''git'' [''add'', ''.''] (Some (curaDirectory g)),
        ExecFile ''git'' [''commit'', ''-m'', ''[curasync] init''] (Some (curaDirectory g)),
        ExecFile ''git'' [''push'', ''-u'', ''origin'', ''main''] (Some (curaDirectory g)),
        WriteFile (pathJoin w (curaDirectory g) ''.gitignore'') gitignoreContent]"

text \<open>A user name that is one plain path segment.\<close>

definition plainName :: "string \<Rightarrow> bool" where
  "plainName u = (u \<noteq> [] \<and> CHR ''/'' \<notin> set u \<and> u \<noteq> ''.'' \<and> u \<noteq> ''..'')"

text \<open>The backup directory of \<open>clone\<close>, as the program computes it.\<close>

definition backupDirectory :: "world \<Rightarrow> string \<Rightarrow> string" where
  "backupDirectory w dir = pathJoin w dir (''../cura_backup_'' @ stringOfNat (now w))"

text \<open>
  The events of the first part of the \<open>push\<close> branch: lookup, its diagnostics, the
  question whether to quit, the termination signal and the pause after it.
\<close>

fun guardEvent :: "event \<Rightarrow> bool" where
  "guardEvent Pgrep = True"
| "guardEvent (LogShellOutput code out err) = True"
| "guardEvent (Question p) = True"
| "guardEvent (Kill pid) = True"
| "guardEvent (Sleep ms) = True"
| "guardEvent e = False"

text \<open>The first part of the \<open>push\<close> branch, up to the check for changes.\<close>

definition pushGuard :: "world \<Rightarrow> unit prog" where
  "pushGuard w =
     bnd (getCuraPid w) (\<lambda>curaPid.
       case curaPid of
         None \<Rightarrow> ret ()
       | Some pid \<Rightarrow>
           if truthy pid then
             bnd (confirm quitPrompt (Some Yes)) (\<lambda>quitCura.
               if quitCura = Some Yes then
                 bnd (killProcess w pid) (\<lambda>_. emit (Sleep 1000))
               else ret ())
           else ret ())"

definition nothingToPush :: string where
  "nothingToPush = ''Looks like there are no changes to push''"

section \<open>Basic facts\<close>

subsection \<open>Sequencing\<close>

lemma bnd_ret [simp]: "bnd (ret x) f = f x"
  by (rule ext) (simp add: bnd_def ret_def)

lemma bnd_throw [simp]: "bnd (throw e) f = throw e"
  by (rule ext) (simp add: bnd_def throw_def)

lemma bnd_exit [simp]: "bnd (exit n) f = exit n"
  by (rule ext) (simp add: bnd_def exit_def)

lemma bnd_emit [simp]: "bnd (emit e) f s = f () (s\<lparr>trace := trace s @ [e]\<rparr>)"
  by (simp add: bnd_def emit_def)

lemma bnd_Ret: "m s = (Ret x, s') \<Longrightarrow> bnd m f s = f x s'"
  by (simp add: bnd_def)

lemma bnd_Exit: "m s = (Exit n, s') \<Longrightarrow> bnd m f s = (Exit n, s')"
  by (simp add: bnd_def)

lemma bnd_Throw: "m s = (Throw e, s') \<Longrightarrow> bnd m f s = (Throw e, s')"
  by (simp add: bnd_def)

lemma bnd_Blocked: "m s = (Blocked, s') \<Longrightarrow> bnd m f s = (Blocked, s')"
  by (simp add: bnd_def)

lemma state_eq: "\<lparr>lines = lines s, trace = trace s\<rparr> = (s :: state)"
  by simp

subsection \<open>Start and dispatch\<close>

lemma startup_passes:
  assumes "startupPasses w dir"
  shows "startup w s = (Ret (globalsOf w dir), s\<lparr>trace := trace s @ startupEvents dir\<rparr>)"
  using assms
  by (simp add: startupPasses_def startup_def checkCuraDirectory_def liftE_def existsSync_def
      checkGitInstallation_def checkCuraVersionDirectory_def checkGitInitialization_def
      globalsOf_def startupEvents_def ret_def throw_def bnd_def emit_def)

lemma run_passes:
  assumes "startupPasses w dir"
  shows "run w = main w (globalsOf w dir) \<lparr>lines = stdin w, trace = startupEvents dir\<rparr>"
  using startup_passes [OF assms, of "\<lparr>lines = stdin w, trace = []\<rparr>"]
  by (simp add: run_def bnd_def)

lemma index_Some_length: "index xs i = Some x \<Longrightarrow> i < length xs"
  by (simp add: index_def split: if_splits)

lemma run_clone:
  assumes "startupPasses w dir" and "invokes w ''clone'' ps"
  shows "run w = mainClone w ps \<lparr>lines = stdin w, trace = startupEvents dir\<rparr>"
  using assms(2) index_Some_length [of ps 2 "''clone''"]
  by (simp add: run_passes [OF assms(1)] main_def invokes_def)

lemma run_init:
  assumes "startupPasses w dir" and "invokes w ''init'' ps"
  shows "run w = mainInit w (globalsOf w dir) ps \<lparr>lines = stdin w, trace = startupEvents dir\<rparr>"
  using assms(2) index_Some_length [of ps 2 "''init''"]
  by (simp add: run_passes [OF assms(1)] main_def invokes_def)

lemma run_push:
  assumes "startupPasses w dir" and "invokes w ''push'' ps"
  shows "run w = mainPush w (globalsOf w dir) \<lparr>lines = stdin w, trace = startupEvents dir\<rparr>"
  using assms(2) index_Some_length [of ps 2 "''push''"]
  by (simp add: run_passes [OF assms(1)] main_def invokes_def)

lemma run_cwd:
  assumes "startupPasses w dir" and "invokes w ''cwd'' ps"
  shows "run w = mainCwd (globalsOf w dir) \<lparr>lines = stdin w, trace = startupEvents dir\<rparr>"
  using assms(2) index_Some_length [of ps 2 "''cwd''"]
  by (simp add: run_passes [OF assms(1)] main_def invokes_def)

subsection \<open>What a computation adds to the trace\<close>

lemma emitsI:
  assumes "\<And>s. \<exists>es. trace (snd (m s)) = trace s @ es \<and> list_all P es"
  shows "emits P m"
  using assms by (simp add: emits_def)

lemma emitsD:
  assumes "emits P m" and "m s = (r, s')"
  obtains es where "trace s' = trace s @ es" and "list_all P es"
proof -
  from assms(1) obtain es where "trace (snd (m s)) = trace s @ es" and "list_all P es"
    unfolding emits_def by blast
  then show thesis using assms(2) that by simp
qed

lemma emits_ret [intro!, simp]: "emits P (ret x)"
  by (simp add: emits_def ret_def)

lemma emits_exit [intro!, simp]: "emits P (exit n)"
  by (simp add: emits_def exit_def)

lemma emits_throw [intro!, simp]: "emits P (throw e)"
  by (simp add: emits_def throw_def)

lemma emits_emit [intro!]: "P e \<Longrightarrow> emits P (emit e)"
  by (simp add: emits_def emit_def)

lemma emits_liftE [intro!, simp]: "emits P (liftE v)"
  by (cases v) (simp_all add: liftE_def)

lemma emits_bnd [intro!]:
  assumes "emits P m" and "\<And>x. emits P (f x)"
  shows "emits P (bnd m f)"
proof (rule emitsI)
  fix s
  obtain r s1 where m: "m s = (r, s1)" by (cases "m s")
  from emitsD [OF assms(1) m] obtain es1
    where es1: "trace s1 = trace s @ es1" "list_all P es1" by blast
  show "\<exists>es. trace (snd (bnd m f s)) = trace s @ es \<and> list_all P es"
  proof (cases r)
    case (Ret x)
    obtain r2 s2 where f: "f x s1 = (r2, s2)" by (cases "f x s1")
    from emitsD [OF assms(2) f] obtain es2
      where es2: "trace s2 = trace s1 @ es2" "list_all P es2" by blast
    have "bnd m f s = (r2, s2)" using m Ret f by (simp add: bnd_def)
    then show ?thesis using es1 es2 by (intro exI [of _ "es1 @ es2"]) simp
  qed (use m es1 in \<open>auto simp: bnd_def\<close>)
qed

lemma emits_if [intro!]:
  "(c \<Longrightarrow> emits P a) \<Longrightarrow> (\<not> c \<Longrightarrow> emits P b) \<Longrightarrow> emits P (if c then a else b)"
  by simp

lemma emits_mono:
  assumes "emits P m" and "\<And>e. P e \<Longrightarrow> Q e"
  shows "emits Q m"
  unfolding emits_def
proof
  fix s
  from assms(1) obtain es where "trace (snd (m s)) = trace s @ es" "list_all P es"
    unfolding emits_def by blast
  then show "\<exists>es. trace (snd (m s)) = trace s @ es \<and> list_all Q es"
    using assms(2) by (auto simp: list_all_iff)
qed

lemma confirmLoop_trace:
  "\<exists>k. trace (snd (confirmLoop q d ls tr)) = tr @ replicate k (Question (confirmPrompt q d))"
proof (induction ls arbitrary: tr)
  case Nil
  show ?case by (simp add: exI [of _ 1])
next
  case (Cons l ls)
  obtain k where k: "trace (snd (confirmLoop q d ls (tr @ [Question (confirmPrompt q d)]))) =
      (tr @ [Question (confirmPrompt q d)]) @ replicate k (Question (confirmPrompt q d))"
    using Cons.IH by blast
  show ?case
  proof (cases "isAnswer l")
    case True
    then show ?thesis by (auto simp: isAnswer_def Let_def intro: exI [of _ 1])
  next
    case False
    then have "trace (snd (confirmLoop q d (l # ls) tr)) =
        tr @ replicate (Suc k) (Question (confirmPrompt q d))"
      using k by (simp add: isAnswer_def Let_def)
    then show ?thesis by blast
  qed
qed

lemma emits_confirm [intro!]:
  assumes "\<And>p. P (Question p)"
  shows "emits P (confirm q d)"
proof (rule emitsI)
  fix s
  obtain k where "trace (snd (confirm q d s)) = trace s @ replicate k (Question (confirmPrompt q d))"
    using confirmLoop_trace [of q d "lines s" "trace s"] by (auto simp: confirm_def)
  then show "\<exists>es. trace (snd (confirm q d s)) = trace s @ es \<and> list_all P es"
    using assms by (auto simp: list_all_iff)
qed

lemma askLoop_trace:
  "\<exists>k. trace (snd (askLoop q d ls tr)) = tr @ replicate k (Question (askPrompt q d))"
proof (induction ls arbitrary: tr)
  case Nil
  show ?case by (simp add: exI [of _ 1])
next
  case (Cons l ls)
  obtain k where k: "trace (snd (askLoop q d ls (tr @ [Question (askPrompt q d)]))) =
      (tr @ [Question (askPrompt q d)]) @ replicate k (Question (askPrompt q d))"
    using Cons.IH by blast
  show ?case
  proof (cases "l = [] \<and> (d = None \<or> d = Some [])")
    case True
    then have "trace (snd (askLoop q d (l # ls) tr)) =
        tr @ replicate (Suc k) (Question (askPrompt q d))"
      using k by (simp add: Let_def)
    then show ?thesis by blast
  next
    case False
    then have "trace (snd (askLoop q d (l # ls) tr)) = tr @ replicate 1 (Question (askPrompt q d))"
      by (auto simp: Let_def)
    then show ?thesis by blast
  qed
qed

lemma emits_ask [intro!]:
  assumes "\<And>p. P (Question p)"
  shows "emits P (ask q d)"
proof (rule emitsI)
  fix s
  obtain k where "trace (snd (ask q d s)) = trace s @ replicate k (Question (askPrompt q d))"
    using askLoop_trace [of q d "lines s" "trace s"] by (auto simp: ask_def)
  then show "\<exists>es. trace (snd (ask q d s)) = trace s @ es \<and> list_all P es"
    using assms by (auto simp: list_all_iff)
qed

lemma emits_execFileSync [intro!]:
  "P (ExecFile file args cwd) \<Longrightarrow> emits P (execFileSync w file args cwd)"
  unfolding execFileSync_def by (intro emits_bnd emits_emit emits_if emits_throw emits_ret)

lemma emits_writeFileSync [intro!]:
  "P (WriteFile p c) \<Longrightarrow> emits P (writeFileSync w p c)"
  unfolding writeFileSync_def by (intro emits_bnd emits_emit emits_if emits_throw emits_ret)

lemma emits_existsSync [intro!]:
  "P (ExistsSync p) \<Longrightarrow> emits P (existsSync w p)"
  unfolding existsSync_def by (intro emits_bnd emits_emit emits_ret)

lemma emits_startup: "emits probe (startup w)"
  unfolding startup_def checkCuraDirectory_def checkGitInstallation_def
    checkCuraVersionDirectory_def checkGitInitialization_def
  by (intro emits_bnd emits_emit emits_if emits_throw emits_ret emits_liftE emits_existsSync)
     simp_all

subsection \<open>The example world\<close>

lemma example_startup:
  assumes "platform w = ''linux''" "username w = ''ada''"
    "pathExists w = (\<lambda>p. True)" "execFails w = (\<lambda>file args. False)"
  shows "startupPasses w exampleDirectory"
  using assms
  by (simp add: startupPasses_def getDefaultCuraDirectory_def getOperatingSystem_def
      exampleDirectory_def)

lemma example_cwd_invokes:
  "invokes (exampleWorld\<lparr>argv := [''bun'', ''curasync'', ''cwd'']\<rparr>) ''cwd''
     [''bun'', ''curasync'', ''cwd'']"
  by (simp add: invokes_def isOptionArg_def index_def)

lemma mainCwd_run:
  "mainCwd g s = (Exit 0, s\<lparr>trace := trace s @ [Log (curaDirectory g)]\<rparr>)"
  by (simp add: mainCwd_def exit_def)

lemma example_cwd_run:
  "run (exampleWorld\<lparr>argv := [''bun'', ''curasync'', ''cwd'']\<rparr>) =
     (Exit 0, \<lparr>lines = [], trace = startupEvents exampleDirectory @ [Log exampleDirectory]\<rparr>)"
  using run_cwd [OF example_startup example_cwd_invokes]
  by (simp add: exampleWorld_def mainCwd_run globalsOf_def)

lemma example_cwd_terminator_invokes:
  "invokes (exampleWorld\<lparr>argv := [''bun'', ''curasync'', ''cwd'', ''--'', ''-x'']\<rparr>) ''cwd''
     [''bun'', ''curasync'', ''cwd'', ''-x'']"
  by (simp add: invokes_def isOptionArg_def index_def)

lemma example_cwd_terminator_run:
  "run (exampleWorld\<lparr>argv := [''bun'', ''curasync'', ''cwd'', ''--'', ''-x'']\<rparr>) =
     (Exit 0, \<lparr>lines = [], trace = startupEvents exampleDirectory @ [Log exampleDirectory]\<rparr>)"
  using run_cwd [OF example_startup example_cwd_terminator_invokes]
  by (simp add: exampleWorld_def mainCwd_run globalsOf_def)

subsection \<open>The process guard\<close>

lemma getCuraPid_eq:
  "getCuraPid w s =
     (if notRunning w then (Ret None, s\<lparr>trace := trace s @ [Pgrep]\<rparr>)
      else if pgrepExit w = 0 then
        (if Number (trim (pgrepStdout w)) = JNaN
         then (Throw NoProcessNumber, s\<lparr>trace := trace s @ [Pgrep]\<rparr>)
         else (Ret (Some (Number (trim (pgrepStdout w)))), s\<lparr>trace := trace s @ [Pgrep]\<rparr>))
      else (Throw PgrepWeird,
            s\<lparr>trace := trace s @ [Pgrep, LogShellOutput (pgrepExit w) (pgrepStdout w) (pgrepStderr w)]\<rparr>))"
  by (simp add: getCuraPid_def notRunning_def isNaN_def Let_def ret_def throw_def)

lemma killProcess_eq:
  "killProcess w pid s =
     (if killExit w \<noteq> 0 then (Throw (KillFailed (killStderr w)), s\<lparr>trace := trace s @ [Kill pid]\<rparr>)
      else (Ret (), s\<lparr>trace := trace s @ [Kill pid]\<rparr>))"
  by (simp add: killProcess_def ret_def throw_def)

lemma confirm_questions:
  assumes "confirm q d s = (r, s')"
  obtains k where "trace s' = trace s @ replicate k (Question (confirmPrompt q d))"
  using confirmLoop_trace [of q d "lines s" "trace s"] assms by (auto simp: confirm_def)

lemma dropWhile_within:
  "set (dropWhile P evs) \<subseteq> set (dropWhile P (pre @ evs @ post))"
proof (induction pre)
  case Nil
  show ?case
  proof (cases "\<forall>x\<in>set evs. P x")
    case True
    then have e: "dropWhile P evs = []" by simp
    show ?thesis unfolding e by simp
  next
    case False
    then show ?thesis by (auto simp: dropWhile_append)
  qed
next
  case (Cons a pre)
  show ?case
  proof (cases "P a")
    case True
    then show ?thesis using Cons by simp
  next
    case False
    then show ?thesis using set_dropWhileD [of _ P evs] by auto
  qed
qed

lemma guardPassed_append: "guardPassed w evs \<Longrightarrow> guardPassed w (pre @ evs @ post)"
  using dropWhile_within [of "\<lambda>e. e \<noteq> Pgrep" evs pre post]
  by (auto simp: guardPassed_def Let_def)

lemma confirmAndKillCura_guard:
  assumes "confirmAndKillCura w s = (r, s')"
  shows "\<exists>es. trace s' = trace s @ es \<and> list_all (\<lambda>e. \<not> mutating e) es
            \<and> (r = Ret True \<longrightarrow> guardPassed w es)
            \<and> (r = Ret False \<longrightarrow> list_all promptOrLookup es)"
proof (cases "notRunning w")
  case True
  then have "confirmAndKillCura w s = (Ret True, s\<lparr>trace := trace s @ [Pgrep]\<rparr>)"
    by (simp add: confirmAndKillCura_def bnd_def getCuraPid_eq ret_def)
  then show ?thesis using assms True by (auto simp: guardPassed_def)
next
  case nr: False
  show ?thesis
  proof (cases "pgrepExit w = 0 \<and> Number (trim (pgrepStdout w)) \<noteq> JNaN")
    case False
    then have "confirmAndKillCura w s = (Throw NoProcessNumber, s\<lparr>trace := trace s @ [Pgrep]\<rparr>)
       \<or> confirmAndKillCura w s = (Throw PgrepWeird,
            s\<lparr>trace := trace s @ [Pgrep, LogShellOutput (pgrepExit w) (pgrepStdout w) (pgrepStderr w)]\<rparr>)"
      using nr by (auto simp: confirmAndKillCura_def bnd_def getCuraPid_eq)
    then show ?thesis using assms by auto
  next
    case True
    let ?pid = "Number (trim (pgrepStdout w))"
    let ?s1 = "s\<lparr>trace := trace s @ [Pgrep]\<rparr>"
    obtain r2 s2 where c: "confirm killPrompt (Some Yes) ?s1 = (r2, s2)"
      by (cases "confirm killPrompt (Some Yes) ?s1")
    obtain k where k: "trace s2 = trace ?s1 @ replicate k (Question (confirmPrompt killPrompt (Some Yes)))"
      using confirm_questions [OF c] by blast
    have cak: "confirmAndKillCura w s =
       (case r2 of
          Ret res \<Rightarrow> if res \<noteq> Some Yes then (Ret False, s2)
                     else if killExit w \<noteq> 0
                          then (Throw (KillFailed (killStderr w)), s2\<lparr>trace := trace s2 @ [Kill ?pid]\<rparr>)
                          else (Ret True, s2\<lparr>trace := trace s2 @ [Kill ?pid]\<rparr>)
        | Exit n \<Rightarrow> (Exit n, s2) | Throw e \<Rightarrow> (Throw e, s2) | Blocked \<Rightarrow> (Blocked, s2))"
      using nr True c
      by (simp add: confirmAndKillCura_def bnd_def getCuraPid_eq killProcess_eq ret_def
          split: res.splits)
    show ?thesis
    proof (cases r2)
      case (Ret res)
      then show ?thesis using cak assms k True
        by (auto simp: guardPassed_def list_all_iff split: if_splits)
    qed (use cak assms k in \<open>auto simp: list_all_iff\<close>)
  qed
qed

section \<open>The prompter\<close>

lemma confirmLoop_skip:
  assumes "\<forall>j \<in> set junk. \<not> isAnswer j"
  shows "confirmLoop q d (junk @ rest) tr =
         confirmLoop q d rest (tr @ replicate (length junk) (Question (confirmPrompt q d)))"
  using assms
proof (induction junk arbitrary: tr)
  case Nil
  then show ?case by simp
next
  case (Cons j junk)
  have "\<not> isAnswer j" using Cons.prems by simp
  then have "confirmLoop q d (j # junk @ rest) tr =
             confirmLoop q d (junk @ rest) (tr @ [Question (confirmPrompt q d)])"
    by (simp add: isAnswer_def Let_def)
  also have "\<dots> = confirmLoop q d rest
      ((tr @ [Question (confirmPrompt q d)]) @ replicate (length junk) (Question (confirmPrompt q d)))"
    using Cons.prems by (intro Cons.IH) simp
  finally show ?case by (simp add: replicate_app_Cons_same)
qed

lemma not_answer_maybe: "\<not> isAnswer ''maybe''"
  by code_simp

lemma blank_line_normal_form: "toLowerCase (trim ''  '') = ''''"
  by code_simp

text \<open>
  Claim C6, as amended. \<open>confirm\<close> trims and lowercases each line it reads. Lines that
  are then neither \<open>y\<close>, \<open>n\<close> nor empty are skipped, and the question is asked once more
  for each of them. The first line that is \<open>y\<close> or \<open>n\<close> is the answer; the first line that
  is empty gives the default answer, which is \<open>null\<close> (here \<open>None\<close>) when the caller
  passed no default: in that case \<open>confirm\<close> returns \<open>null\<close> and does not ask again. When
  the user types no such line at all, \<open>confirm\<close> keeps waiting.
\<close>

theorem confirm_answers:
  assumes "\<forall>j \<in> set junk. \<not> isAnswer j"
  shows "confirm q d \<lparr>lines = junk @ line # rest, trace = tr\<rparr> =
     (let asked = tr @ replicate (Suc (length junk)) (Question (confirmPrompt q d));
          l = toLowerCase (trim line)
      in if l = ''y'' then (Ret (Some Yes), \<lparr>lines = rest, trace = asked\<rparr>)
         else if l = ''n'' then (Ret (Some No), \<lparr>lines = rest, trace = asked\<rparr>)
         else if l = '''' then (Ret d, \<lparr>lines = rest, trace = asked\<rparr>)
         else confirm q d \<lparr>lines = rest, trace = asked\<rparr>)
   \<and> confirm q d \<lparr>lines = junk, trace = tr\<rparr> =
       (Blocked,
        \<lparr>lines = [],
         trace = tr @ replicate (Suc (length junk)) (Question (confirmPrompt q d))\<rparr>)"
proof
  show "confirm q d \<lparr>lines = junk @ line # rest, trace = tr\<rparr> =
     (let asked = tr @ replicate (Suc (length junk)) (Question (confirmPrompt q d));
          l = toLowerCase (trim line)
      in if l = ''y'' then (Ret (Some Yes), \<lparr>lines = rest, trace = asked\<rparr>)
         else if l = ''n'' then (Ret (Some No), \<lparr>lines = rest, trace = asked\<rparr>)
         else if l = '''' then (Ret d, \<lparr>lines = rest, trace = asked\<rparr>)
         else confirm q d \<lparr>lines = rest, trace = asked\<rparr>)"
    by (simp add: confirm_def confirmLoop_skip [OF assms] Let_def replicate_append_same)
  show "confirm q d \<lparr>lines = junk, trace = tr\<rparr> =
       (Blocked,
        \<lparr>lines = [],
         trace = tr @ replicate (Suc (length junk)) (Question (confirmPrompt q d))\<rparr>)"
    using confirmLoop_skip [OF assms, of q d "[]" tr]
    by (simp add: confirm_def replicate_append_same)
qed

text \<open>
  With no default, the line \<open>maybe\<close> is skipped and the blank line that follows makes
  \<open>confirm\<close> return \<open>null\<close>; the \<open>y\<close> after it is never read.
\<close>

theorem confirm_answers_witness:
  "confirm ''Proceed?'' None \<lparr>lines = [''maybe'', ''  '', ''y''], trace = []\<rparr> =
     (Ret None,
      \<lparr>lines = [''y''],
       trace = [Question ''Proceed? (y/n) '', Question ''Proceed? (y/n) '']\<rparr>)"
  using confirm_answers [of "[''maybe'']" "''Proceed?''" None "''  ''" "[''y'']" "[]"]
  by (simp add: not_answer_maybe blank_line_normal_form confirmPrompt_def)

text \<open>
  Claim C6 as stated fails: with no default answer, an empty line does not repeat the
  prompt. \<open>confirm\<close> asks once and returns \<open>null\<close>.
\<close>

theorem confirm_null_counterexample:
  "confirm ''Proceed?'' None \<lparr>lines = ['''', ''y''], trace = []\<rparr> =
     (Ret None, \<lparr>lines = [''y''], trace = [Question ''Proceed? (y/n) '']\<rparr>)"
  by code_simp

section \<open>Printing the directory\<close>

text \<open>
  Claim C8, as amended. When the module-level checks pass and the arguments name the
  subcommand \<open>cwd\<close>, the program prints exactly the resolved configuration directory and
  exits with code 0. It prints nothing else and changes nothing on disk. The subprocesses
  of the run are the two probes of the module-level checks, \<open>git --version\<close> and
  \<open>git status\<close>, which run before any subcommand is looked at.
\<close>

theorem cwd_prints_directory:
  assumes "startupPasses w dir" and "invokes w ''cwd'' ps"
  shows "run w = (Exit 0, \<lparr>lines = stdin w, trace = startupEvents dir @ [Log dir]\<rparr>)
     \<and> \<not> list_ex mutating (trace (snd (run w)))
     \<and> filter subprocess (trace (snd (run w))) =
         [ExecFile ''git'' [''--version''] None, ExecFile ''git'' [''status''] (Some dir)]"
  using run_cwd [OF assms]
  by (simp add: mainCwd_run globalsOf_def startupEvents_def)

theorem cwd_prints_directory_witness:
  "run (exampleWorld\<lparr>argv := [''bun'', ''curasync'', ''cwd'']\<rparr>) =
     (Exit 0,
      \<lparr>lines = [],
       trace = [ExistsSync ''/home/ada/.local/share/cura'',
                ExecFile ''git'' [''--version''] None,
                ExistsSync ''/home/ada/.local/share/cura/5.6'',
                ExecFile ''git'' [''status''] (Some ''/home/ada/.local/share/cura''),
                Log ''/home/ada/.local/share/cura'']\<rparr>)"
  using cwd_prints_directory [OF example_startup example_cwd_invokes]
  by (simp add: exampleWorld_def startupEvents_def exampleDirectory_def)

text \<open>
  Claim C8 as stated fails: a run of \<open>cwd\<close> that exits with code 0 has started
  subprocesses, the git probes of the module-level checks.
\<close>

theorem cwd_subprocess_counterexample:
  "fst (run (exampleWorld\<lparr>argv := [''bun'', ''curasync'', ''cwd'']\<rparr>)) = Exit 0
   \<and> list_ex subprocess
        (trace (snd (run (exampleWorld\<lparr>argv := [''bun'', ''curasync'', ''cwd'']\<rparr>))))"
  by (simp add: example_cwd_run startupEvents_def)

section \<open>Option arguments\<close>

lemma startup_result:
  "(\<exists>g. fst (startup w s) = Ret g) \<or> (\<exists>e. fst (startup w s) = Throw e)"
  by (simp add: startup_def checkCuraDirectory_def liftE_def existsSync_def
      checkGitInstallation_def checkCuraVersionDirectory_def checkGitInitialization_def
      ret_def throw_def bnd_def emit_def split: sum.splits)

lemma parseArgs_option:
  assumes "find isOptionArg (takeWhile (\<lambda>x. x \<noteq> ''--'') args) = Some a"
  shows "parseArgs args = Inl (UnknownOption a)"
  using assms
proof (induction args)
  case Nil
  then show ?case by simp
next
  case (Cons x xs)
  show ?case
  proof (cases "x = ''--''")
    case True
    then show ?thesis using Cons.prems by simp
  next
    case False
    show ?thesis
    proof (cases "isOptionArg x")
      case True
      then show ?thesis using False Cons.prems by simp
    next
      case no: False
      then have "find isOptionArg (takeWhile (\<lambda>x. x \<noteq> ''--'') xs) = Some a"
        using Cons.prems False by simp
      then have "parseArgs xs = Inl (UnknownOption a)"
        by (rule Cons.IH)
      then show ?thesis using False no by simp
    qed
  qed
qed

lemma main_unknown_option:
  "parseArgs (argv w) = Inl e \<Longrightarrow> main w g s = (Throw e, s)"
  by (simp add: main_def throw_def)

text \<open>
  Claim C9, as amended. An option token is an argument of two or more characters that
  begins with a dash, other than the terminator \<open>--\<close>, and that stands before any
  terminator; \<open>a\<close> is the first one in the argument list. For every invocation whose
  argument list has one, the run ends with an uncaught error and has done nothing but
  the read-only calls of the module-level checks: no subcommand is dispatched. When
  these checks pass, the error is the one strict parsing throws for \<open>a\<close>. A single
  dash, and any word after \<open>--\<close>, is a positional and does not make parsing throw.
\<close>

theorem option_argument_throws:
  assumes "find isOptionArg (takeWhile (\<lambda>x. x \<noteq> ''--'') (argv w)) = Some a"
  shows "(\<exists>e. fst (run w) = Throw e)
     \<and> list_all probe (trace (snd (run w)))
     \<and> (startupPasses w dir \<longrightarrow>
          run w = (Throw (UnknownOption a),
                   \<lparr>lines = stdin w, trace = startupEvents dir\<rparr>))"
proof -
  have a: "parseArgs (argv w) = Inl (UnknownOption a)"
    using parseArgs_option [OF assms] .
  let ?s0 = "\<lparr>lines = stdin w, trace = []\<rparr>"
  obtain r s1 where st: "startup w ?s0 = (r, s1)" by (cases "startup w ?s0")
  from emitsD [OF emits_startup st] obtain es
    where es: "trace s1 = trace ?s0 @ es" "list_all probe es" by blast
  have run: "run w = (case r of Ret g \<Rightarrow> (Throw (UnknownOption a), s1) | Exit n \<Rightarrow> (Exit n, s1)
                | Throw e \<Rightarrow> (Throw e, s1) | Blocked \<Rightarrow> (Blocked, s1))"
    using st by (simp add: run_def bnd_def main_unknown_option [OF a] split: res.splits)
  have r: "(\<exists>g. r = Ret g) \<or> (\<exists>e. r = Throw e)"
    using startup_result [of w ?s0] st by simp
  have 1: "\<exists>e. fst (run w) = Throw e" using r run by auto
  have "snd (run w) = s1" using run by (simp split: res.splits)
  then have 2: "list_all probe (trace (snd (run w)))" using es by simp
  have 3: "startupPasses w dir \<longrightarrow>
          run w = (Throw (UnknownOption a), \<lparr>lines = stdin w, trace = startupEvents dir\<rparr>)"
  proof
    assume p: "startupPasses w dir"
    show "run w = (Throw (UnknownOption a), \<lparr>lines = stdin w, trace = startupEvents dir\<rparr>)"
      by (simp add: run_passes [OF p] main_unknown_option [OF a])
  qed
  from 1 2 3 show ?thesis by blast
qed

theorem option_argument_throws_witness:
  "run (exampleWorld\<lparr>argv := [''bun'', ''curasync'', ''cwd'', ''-x'']\<rparr>) =
     (Throw (UnknownOption ''-x''),
      \<lparr>lines = [],
       trace = [ExistsSync ''/home/ada/.local/share/cura'',
                ExecFile ''git'' [''--version''] None,
                ExistsSync ''/home/ada/.local/share/cura/5.6'',
                ExecFile ''git'' [''status''] (Some ''/home/ada/.local/share/cura'')]\<rparr>)"
proof -
  let ?w = "exampleWorld\<lparr>argv := [''bun'', ''curasync'', ''cwd'', ''-x'']\<rparr>"
  have first: "find isOptionArg (takeWhile (\<lambda>x. x \<noteq> ''--'') (argv ?w)) = Some ''-x''"
    by (simp add: isOptionArg_def)
  have passes: "startupPasses ?w exampleDirectory"
    by (rule example_startup) (simp_all add: exampleWorld_def)
  show ?thesis
    using option_argument_throws [OF first, of exampleDirectory] passes
    by (simp add: exampleWorld_def startupEvents_def exampleDirectory_def)
qed

text \<open>
  Claim C9 as stated fails: the argument list of \<open>curasync cwd -- -x\<close> contains two
  words that begin with a dash, and the run dispatches \<open>cwd\<close> and exits with code 0.
\<close>

theorem option_word_counterexample:
  "hd ''--'' = CHR ''-'' \<and> hd ''-x'' = CHR ''-''
   \<and> argv (exampleWorld\<lparr>argv := [''bun'', ''curasync'', ''cwd'', ''--'', ''-x'']\<rparr>) =
       [''bun'', ''curasync'', ''cwd'', ''--'', ''-x'']
   \<and> run (exampleWorld\<lparr>argv := [''bun'', ''curasync'', ''cwd'', ''--'', ''-x'']\<rparr>) =
       (Exit 0,
        \<lparr>lines = [],
         trace = [ExistsSync ''/home/ada/.local/share/cura'',
                  ExecFile ''git'' [''--version''] None,
                  ExistsSync ''/home/ada/.local/share/cura/5.6'',
                  ExecFile ''git'' [''status''] (Some ''/home/ada/.local/share/cura''),
                  Log ''/home/ada/.local/share/cura'']\<rparr>)"
  by (simp add: example_cwd_terminator_run startupEvents_def exampleDirectory_def)

section \<open>Initialising with a malformed URL\<close>

lemma confirmLoop_outcome:
  "(fst (confirmLoop q d ls tr) = Blocked \<and> filter isAnswer ls = [])
   \<or> (\<exists>a. fst (confirmLoop q d ls tr) = Ret a
         \<and> length (filter isAnswer ls) =
             Suc (length (filter isAnswer (lines (snd (confirmLoop q d ls tr))))))"
proof (induction ls arbitrary: tr)
  case Nil
  show ?case by simp
next
  case (Cons l ls)
  show ?case
  proof (cases "isAnswer l")
    case True
    then show ?thesis by (auto simp: isAnswer_def Let_def)
  next
    case False
    then have "confirmLoop q d (l # ls) tr = confirmLoop q d ls (tr @ [Question (confirmPrompt q d)])"
      by (simp add: isAnswer_def Let_def)
    then show ?thesis using Cons.IH [of "tr @ [Question (confirmPrompt q d)]"] False by simp
  qed
qed

lemma confirm_outcome:
  assumes "confirm q d s = (r, s')"
  shows "(r = Blocked \<and> filter isAnswer (lines s) = [])
   \<or> (\<exists>a. r = Ret a \<and> length (filter isAnswer (lines s)) = Suc (length (filter isAnswer (lines s'))))"
  using confirmLoop_outcome [of q d "lines s" "trace s"] assms
  by (simp add: confirm_def)

lemma emits_mainInit_invalid:
  assumes "case index ps 3 of None \<Rightarrow> True | Some url \<Rightarrow> \<not> isValidUrl w url"
  shows "emits (\<lambda>e. \<not> mutating e) (mainInit w g ps)"
  unfolding mainInit_def using assms
  by (auto split: option.splits)

lemma mainInit_invalid_result:
  assumes inv: "case index ps 3 of None \<Rightarrow> True | Some url \<Rightarrow> \<not> isValidUrl w url"
  shows "(fst (mainInit w g ps s) = Exit 1 \<or> fst (mainInit w g ps s) = Blocked)
      \<and> (2 \<le> length (filter isAnswer (lines s)) \<longrightarrow> fst (mainInit w g ps s) = Exit 1)"
proof -
  let ?tail = "(case index ps 3 of
       None \<Rightarrow>
         bnd (emit (ConsoleError ''Invalid URL. Please enter a valid URL.'')) (\<lambda>_. exit 1)
     | Some url \<Rightarrow>
         if \<not> isValidUrl w url then
           bnd (emit (ConsoleError ''Invalid URL. Please enter a valid URL.'')) (\<lambda>_. exit 1)
         else bnd (initializeRepo w g url) (\<lambda>_. exit 0)) :: unit prog"
  have tail: "fst (?tail t) = Exit 1" for t
    using inv by (simp add: exit_def split: option.splits)
  obtain r1 s1 where c1: "confirm initPrompt (Some No) s = (r1, s1)"
    by (cases "confirm initPrompt (Some No) s")
  obtain r2 s2 where c2: "confirm overwritePrompt (Some No) s1 = (r2, s2)"
    by (cases "confirm overwritePrompt (Some No) s1")
  note o1 = confirm_outcome [OF c1] and o2 = confirm_outcome [OF c2]
  show ?thesis
  proof (cases r1)
    case Blocked
    then show ?thesis using c1 o1 by (simp add: mainInit_def bnd_def)
  next
    case (Ret a)
    show ?thesis
    proof (cases "a = Some Yes")
      case False
      then show ?thesis using c1 Ret by (simp add: mainInit_def bnd_def exit_def)
    next
      case yes: True
      show ?thesis
      proof (cases "isGitInitialized g")
        case False
        then have "mainInit w g ps s = ?tail s1"
          using c1 Ret yes by (simp add: mainInit_def bnd_def)
        then show ?thesis using tail by simp
      next
        case True
        show ?thesis
        proof (cases r2)
          case Blocked
          then have "fst (mainInit w g ps s) = Blocked"
            using c1 c2 Ret yes True by (simp add: mainInit_def bnd_def)
          then show ?thesis using o1 o2 Ret Blocked by simp
        next
          case r2: (Ret a2)
          show ?thesis
          proof (cases "a2 = Some Yes")
            case False
            then show ?thesis using c1 c2 Ret yes True r2
              by (simp add: mainInit_def bnd_def exit_def)
          next
            case True2: True
            have "mainInit w g ps s = ?tail s2"
              using c1 c2 Ret yes True r2 True2 by (simp add: mainInit_def bnd_def ret_def)
            then show ?thesis using tail by simp
          qed
        qed (use o2 in auto)
      qed
    qed
  qed (use o1 in auto)
qed

lemma y_is_answer: "isAnswer ''y''"
  by code_simp

lemma example_init_bad_url_invokes:
  "invokes (exampleWorld\<lparr>argv := [''bun'', ''curasync'', ''init'', ''not a url''],
                          stdin := [''y'', ''y'']\<rparr>) ''init''
     [''bun'', ''curasync'', ''init'', ''not a url'']"
  by (simp add: invokes_def isOptionArg_def index_def)

text \<open>
  Claim C5. When an \<open>init\<close> invocation passes the module-level checks and its URL
  argument is missing or does not parse as a URL, the run changes nothing on disk: no
  repository metadata is removed or created and no ignore file is written. The run
  ends with exit code 1, unless the user never answers a prompt, and it does end with
  exit code 1 whenever the user types at least two lines that answer a prompt (the
  branch asks at most two questions before it looks at the URL).
\<close>

theorem init_malformed_url:
  assumes "startupPasses w dir" and "invokes w ''init'' ps"
    and "case index ps 3 of None \<Rightarrow> True | Some url \<Rightarrow> \<not> isValidUrl w url"
  shows "\<not> list_ex mutating (trace (snd (run w)))
     \<and> (fst (run w) = Exit 1 \<or> fst (run w) = Blocked)
     \<and> (2 \<le> length (filter isAnswer (stdin w)) \<longrightarrow> fst (run w) = Exit 1)"
proof -
  let ?s0 = "\<lparr>lines = stdin w, trace = startupEvents dir\<rparr>"
  have run: "run w = mainInit w (globalsOf w dir) ps ?s0"
    by (rule run_init [OF assms(1,2)])
  obtain r s' where m: "mainInit w (globalsOf w dir) ps ?s0 = (r, s')"
    by (cases "mainInit w (globalsOf w dir) ps ?s0")
  from emitsD [OF emits_mainInit_invalid [OF assms(3)] m] obtain es
    where es: "trace s' = trace ?s0 @ es" "list_all (\<lambda>e. \<not> mutating e) es" by blast
  have "\<not> list_ex mutating (trace s')"
    using es by (simp add: startupEvents_def list_ex_iff list_all_iff)
  then show ?thesis
    using mainInit_invalid_result [OF assms(3), of "globalsOf w dir" ?s0] run m by simp
qed

theorem init_malformed_url_witness:
  "\<not> list_ex mutating
       (trace (snd (run (exampleWorld\<lparr>argv := [''bun'', ''curasync'', ''init'', ''not a url''],
                                      stdin := [''y'', ''y'']\<rparr>))))
   \<and> fst (run (exampleWorld\<lparr>argv := [''bun'', ''curasync'', ''init'', ''not a url''],
                             stdin := [''y'', ''y'']\<rparr>)) = Exit 1"
proof -
  let ?w = "exampleWorld\<lparr>argv := [''bun'', ''curasync'', ''init'', ''not a url''],
                         stdin := [''y'', ''y'']\<rparr>"
  have passes: "startupPasses ?w exampleDirectory"
    by (rule example_startup) (simp_all add: exampleWorld_def)
  have bad: "case index [''bun'', ''curasync'', ''init'', ''not a url''] 3 of
               None \<Rightarrow> True | Some url \<Rightarrow> \<not> isValidUrl ?w url"
    by (simp add: index_def isValidUrl_def exampleWorld_def exampleUrl_def)
  have answers: "2 \<le> length (filter isAnswer (stdin ?w))"
    by (simp add: y_is_answer)
  show ?thesis
    using init_malformed_url [OF passes example_init_bad_url_invokes bad] answers
    by simp
qed

section \<open>Declining to terminate the companion application\<close>

lemma mainClone_declined:
  assumes "index ps 3 = Some url" "url \<noteq> []" "isValidUrl w url"
    and "confirm clonePrompt (Some No) s = (Ret (Some Yes), s1)"
    and "confirmAndKillCura w s1 = (Ret False, s3)"
  shows "mainClone w ps s = (Throw CuraStillRunning, s3)"
  using assms by (simp add: mainClone_def bnd_def throw_def)

lemma mainInit_declined:
  assumes "index ps 3 = Some url" "isValidUrl w url"
    and "confirm initPrompt (Some No) s = (Ret (Some Yes), s1)"
    and "if isGitInitialized g then confirm overwritePrompt (Some No) s1 = (Ret (Some Yes), s2)
         else s2 = s1"
    and "confirmAndKillCura w s2 = (Ret False, s3)"
  shows "mainInit w g ps s = (Throw CuraStillRunning, s3)"
  using assms
  by (simp add: mainInit_def initializeRepo_def bnd_def throw_def ret_def split: if_splits)

lemma prompts_then_declined:
  assumes "trace s1 = tr @ qs" "list_all promptOrLookup qs"
    and "confirmAndKillCura w s1 = (Ret False, s3)"
  shows "\<exists>qs. trace s3 = tr @ qs \<and> list_all promptOrLookup qs"
proof -
  obtain es where "trace s3 = trace s1 @ es" "list_all promptOrLookup es"
    using confirmAndKillCura_guard [OF assms(3)] by blast
  then show ?thesis using assms(1,2)
    by (intro exI [of _ "qs @ es"]) simp
qed

lemma confirm_prompts:
  assumes "confirm q d s = (r, s')" "trace s = tr @ qs" "list_all promptOrLookup qs"
  shows "\<exists>qs. trace s' = tr @ qs \<and> list_all promptOrLookup qs"
proof -
  obtain k where "trace s' = trace s @ replicate k (Question (confirmPrompt q d))"
    using confirm_questions [OF assms(1)] by blast
  then show ?thesis using assms(2,3)
    by (intro exI [of _ "qs @ replicate k (Question (confirmPrompt q d))"])
       (auto simp: list_all_iff)
qed


lemma y_normal_form: "toLowerCase (trim ''y'') = ''y''"
  by code_simp

lemma n_normal_form: "toLowerCase (trim ''n'') = ''n''"
  by code_simp

lemma confirm_y:
  "confirm q d \<lparr>lines = ''y'' # rest, trace = tr\<rparr> =
     (Ret (Some Yes), \<lparr>lines = rest, trace = tr @ [Question (confirmPrompt q d)]\<rparr>)"
  by (simp add: confirm_def y_normal_form)

lemma confirm_n:
  "confirm q d \<lparr>lines = ''n'' # rest, trace = tr\<rparr> =
     (Ret (Some No), \<lparr>lines = rest, trace = tr @ [Question (confirmPrompt q d)]\<rparr>)"
  by (simp add: confirm_def n_normal_form)

lemma example_pid_text: "trim ''4242\<newline>'' = ''4242''"
  by code_simp

lemma example_pid: "Number (trim ''4242\<newline>'') = JNum 4242"
proof -
  have "trim ''4242'' = ''4242''" by code_simp
  then show ?thesis
    by (simp add: example_pid_text Number_def startsWith_def strDecimalLiteral_def
        unsignedDecimal_def digitOf_def roundNumber_def)
qed

lemma guard_declined:
  assumes "pgrepExit w = 0" and "pgrepStdout w = ''4242\<newline>''"
  shows "confirmAndKillCura w \<lparr>lines = ''n'' # rest, trace = tr\<rparr> =
     (Ret False,
      \<lparr>lines = rest, trace = tr @ [Pgrep, Question (confirmPrompt killPrompt (Some Yes))]\<rparr>)"
  using assms
  by (simp add: confirmAndKillCura_def bnd_def getCuraPid_eq notRunning_def example_pid
      confirm_n ret_def)

lemma guard_accepted:
  assumes "pgrepExit w = 0" and "pgrepStdout w = ''4242\<newline>''" and "killExit w = 0"
  shows "confirmAndKillCura w \<lparr>lines = ''y'' # rest, trace = tr\<rparr> =
     (Ret True,
      \<lparr>lines = rest,
       trace = tr @ [Pgrep, Question (confirmPrompt killPrompt (Some Yes)), Kill (JNum 4242)]\<rparr>)"
  using assms
  by (simp add: confirmAndKillCura_def bnd_def getCuraPid_eq notRunning_def example_pid
      confirm_y killProcess_eq ret_def)

lemma guard_not_running:
  assumes "notRunning w"
  shows "confirmAndKillCura w s = (Ret True, s\<lparr>trace := trace s @ [Pgrep]\<rparr>)"
  using assms by (simp add: confirmAndKillCura_def bnd_def getCuraPid_eq ret_def)

lemma cloneDeclined_passes: "startupPasses cloneDeclined exampleDirectory"
  by (rule example_startup) (simp_all add: cloneDeclined_def exampleWorld_def)

lemma initDeclined_passes: "startupPasses initDeclined exampleDirectory"
  by (rule example_startup) (simp_all add: initDeclined_def exampleWorld_def)

lemma cloneDeclined_invokes:
  "invokes cloneDeclined ''clone'' [''bun'', ''curasync'', ''clone'', exampleUrl]"
  by (simp add: invokes_def isOptionArg_def index_def cloneDeclined_def exampleUrl_def)

lemma initDeclined_invokes:
  "invokes initDeclined ''init'' [''bun'', ''curasync'', ''init'', exampleUrl]"
  by (simp add: invokes_def isOptionArg_def index_def initDeclined_def exampleUrl_def)

lemma cloneDeclined_fields:
  "stdin cloneDeclined = [''y'', ''n'']" "isValidUrl cloneDeclined exampleUrl"
  "pgrepExit cloneDeclined = 0" "pgrepStdout cloneDeclined = ''4242\<newline>''"
  by (simp_all add: cloneDeclined_def exampleWorld_def isValidUrl_def)

lemma initDeclined_fields:
  "stdin initDeclined = [''y'', ''y'', ''n'']" "isValidUrl initDeclined exampleUrl"
  "pgrepExit initDeclined = 0" "pgrepStdout initDeclined = ''4242\<newline>''"
  "\<not> execFails initDeclined ''git'' [''status'']"
  by (simp_all add: initDeclined_def exampleWorld_def isValidUrl_def)

lemma exampleUrl_not_empty: "exampleUrl \<noteq> []"
  by (simp add: exampleUrl_def)

lemma cloneDeclined_run:
  "run cloneDeclined =
     (Throw CuraStillRunning,
      \<lparr>lines = [],
       trace = startupEvents exampleDirectory
               @ [Question (confirmPrompt clonePrompt (Some No)), Pgrep,
                  Question (confirmPrompt killPrompt (Some Yes))]\<rparr>)"
proof -
  let ?s1 = "\<lparr>lines = [''n''],
             trace = startupEvents exampleDirectory @ [Question (confirmPrompt clonePrompt (Some No))]\<rparr>"
  have "mainClone cloneDeclined [''bun'', ''curasync'', ''clone'', exampleUrl]
          \<lparr>lines = stdin cloneDeclined, trace = startupEvents exampleDirectory\<rparr> =
        (Throw CuraStillRunning,
         \<lparr>lines = [],
          trace = startupEvents exampleDirectory
                  @ [Question (confirmPrompt clonePrompt (Some No)), Pgrep,
                     Question (confirmPrompt killPrompt (Some Yes))]\<rparr>)"
    by (rule mainClone_declined [where url = exampleUrl and ?s1.0 = ?s1])
       (simp_all add: index_def cloneDeclined_fields exampleUrl_not_empty confirm_y
          guard_declined)
  then show ?thesis
    using run_clone [OF cloneDeclined_passes cloneDeclined_invokes] by simp
qed

text \<open>
  Claim C4, as amended. Take an \<open>init\<close> or \<open>clone\<close> invocation that passes the
  module-level checks, has a well-formed URL and in which the user confirms every
  question asked before the process guard, so that \<open>confirmAndKillCura\<close> is called; let
  it return false, which it does exactly when the companion application is found and the
  user declines to terminate it. Then the run ends with the error
  \<open>Exiting: cura is still running\<close>, thrown out of \<open>main\<close> and caught by nothing: the
  process ends with status 1, and what is reported is the error with its stack trace,
  written by the runtime, not a short message written by the program. The operation
  itself, that is the run after the module-level checks, has only asked questions and
  looked the process up: it has renamed nothing, removed nothing, written no file and
  started no git subprocess.
\<close>

theorem decline_kill_aborts:
  assumes "startupPasses w dir"
  shows "(invokes w ''init'' ps \<and> index ps 3 = Some url \<and> isValidUrl w url
          \<and> confirm initPrompt (Some No) \<lparr>lines = stdin w, trace = startupEvents dir\<rparr>
              = (Ret (Some Yes), s1)
          \<and> (if execFails w ''git'' [''status''] then s2 = s1
              else confirm overwritePrompt (Some No) s1 = (Ret (Some Yes), s2))
          \<and> confirmAndKillCura w s2 = (Ret False, s3)
          \<longrightarrow> run w = (Throw CuraStillRunning, s3)
              \<and> exitStatus (fst (run w)) = Some 1 \<and> stackTrace (fst (run w))
              \<and> (\<exists>qs. trace s3 = startupEvents dir @ qs \<and> list_all promptOrLookup qs))
     \<and> (invokes w ''clone'' ps \<and> index ps 3 = Some url \<and> url \<noteq> [] \<and> isValidUrl w url
          \<and> confirm clonePrompt (Some No) \<lparr>lines = stdin w, trace = startupEvents dir\<rparr>
              = (Ret (Some Yes), s1)
          \<and> confirmAndKillCura w s1 = (Ret False, s3)
          \<longrightarrow> run w = (Throw CuraStillRunning, s3)
              \<and> exitStatus (fst (run w)) = Some 1 \<and> stackTrace (fst (run w))
              \<and> (\<exists>qs. trace s3 = startupEvents dir @ qs \<and> list_all promptOrLookup qs))"
proof -
  let ?s0 = "\<lparr>lines = stdin w, trace = startupEvents dir\<rparr>"
  have s0: "trace ?s0 = startupEvents dir @ []" "list_all promptOrLookup []" by simp_all
  have ending: "exitStatus (fst (run w)) = Some 1 \<and> stackTrace (fst (run w))"
    if "run w = (Throw CuraStillRunning, s3)"
    using that by (simp add: exitStatus_def stackTrace_def)
  have init: "run w = (Throw CuraStillRunning, s3)
      \<and> (\<exists>qs. trace s3 = startupEvents dir @ qs \<and> list_all promptOrLookup qs)"
    if h: "invokes w ''init'' ps \<and> index ps 3 = Some url \<and> isValidUrl w url
          \<and> confirm initPrompt (Some No) ?s0 = (Ret (Some Yes), s1)
          \<and> (if execFails w ''git'' [''status''] then s2 = s1
              else confirm overwritePrompt (Some No) s1 = (Ret (Some Yes), s2))
          \<and> confirmAndKillCura w s2 = (Ret False, s3)"
  proof
    from h have "mainInit w (globalsOf w dir) ps ?s0 = (Throw CuraStillRunning, s3)"
      by (intro mainInit_declined [of ps url w _ s1 _ s2]) (auto simp: globalsOf_def)
    then show "run w = (Throw CuraStillRunning, s3)"
      using run_init [OF assms, of ps] h by simp
    obtain q1 where q1: "trace s1 = startupEvents dir @ q1" "list_all promptOrLookup q1"
      using confirm_prompts [OF _ s0] h by blast
    have "\<exists>q2. trace s2 = startupEvents dir @ q2 \<and> list_all promptOrLookup q2"
    proof (cases "execFails w ''git'' [''status'']")
      case True
      then show ?thesis using h q1 by auto
    next
      case False
      then have "confirm overwritePrompt (Some No) s1 = (Ret (Some Yes), s2)" using h by simp
      then show ?thesis using confirm_prompts [OF _ q1] by blast
    qed
    then obtain q2 where q2: "trace s2 = startupEvents dir @ q2" "list_all promptOrLookup q2"
      by blast
    show "\<exists>qs. trace s3 = startupEvents dir @ qs \<and> list_all promptOrLookup qs"
      using prompts_then_declined [OF q2] h by blast
  qed
  have clone: "run w = (Throw CuraStillRunning, s3)
      \<and> (\<exists>qs. trace s3 = startupEvents dir @ qs \<and> list_all promptOrLookup qs)"
    if h: "invokes w ''clone'' ps \<and> index ps 3 = Some url \<and> url \<noteq> [] \<and> isValidUrl w url
          \<and> confirm clonePrompt (Some No) ?s0 = (Ret (Some Yes), s1)
          \<and> confirmAndKillCura w s1 = (Ret False, s3)"
  proof
    from h have "mainClone w ps ?s0 = (Throw CuraStillRunning, s3)"
      by (intro mainClone_declined [of ps url w _ s1]) auto
    then show "run w = (Throw CuraStillRunning, s3)"
      using run_clone [OF assms, of ps] h by simp
    obtain q1 where q1: "trace s1 = startupEvents dir @ q1" "list_all promptOrLookup q1"
      using confirm_prompts [OF _ s0] h by blast
    show "\<exists>qs. trace s3 = startupEvents dir @ qs \<and> list_all promptOrLookup qs"
      using prompts_then_declined [OF q1] h by blast
  qed
  from init clone ending show ?thesis by blast
qed

theorem decline_kill_aborts_witness:
  "run initDeclined =
     (Throw CuraStillRunning,
      \<lparr>lines = [],
       trace = startupEvents exampleDirectory
               @ [Question (confirmPrompt initPrompt (Some No)),
                  Question (confirmPrompt overwritePrompt (Some No)), Pgrep,
                  Question (confirmPrompt killPrompt (Some Yes))]\<rparr>)
   \<and> exitStatus (fst (run initDeclined)) = Some 1
   \<and> run cloneDeclined =
     (Throw CuraStillRunning,
      \<lparr>lines = [],
       trace = startupEvents exampleDirectory
               @ [Question (confirmPrompt clonePrompt (Some No)), Pgrep,
                  Question (confirmPrompt killPrompt (Some Yes))]\<rparr>)
   \<and> exitStatus (fst (run cloneDeclined)) = Some 1"
proof -
  let ?i1 = "\<lparr>lines = [''y'', ''n''],
             trace = startupEvents exampleDirectory @ [Question (confirmPrompt initPrompt (Some No))]\<rparr>"
  let ?i2 = "\<lparr>lines = [''n''],
             trace = startupEvents exampleDirectory
                     @ [Question (confirmPrompt initPrompt (Some No)),
                        Question (confirmPrompt overwritePrompt (Some No))]\<rparr>"
  let ?i3 = "\<lparr>lines = [],
             trace = startupEvents exampleDirectory
                     @ [Question (confirmPrompt initPrompt (Some No)),
                        Question (confirmPrompt overwritePrompt (Some No)), Pgrep,
                        Question (confirmPrompt killPrompt (Some Yes))]\<rparr>"
  have "confirmAndKillCura initDeclined ?i2 = (Ret False, ?i3)"
    by (simp add: guard_declined initDeclined_fields)
  then have 1: "run initDeclined = (Throw CuraStillRunning, ?i3)
      \<and> exitStatus (fst (run initDeclined)) = Some 1"
    using decline_kill_aborts [OF initDeclined_passes,
        of "[''bun'', ''curasync'', ''init'', exampleUrl]" exampleUrl ?i1 ?i2 ?i3]
      initDeclined_invokes
    by (simp add: index_def initDeclined_fields confirm_y exitStatus_def)
  let ?c1 = "\<lparr>lines = [''n''],
             trace = startupEvents exampleDirectory @ [Question (confirmPrompt clonePrompt (Some No))]\<rparr>"
  let ?c3 = "\<lparr>lines = [],
             trace = startupEvents exampleDirectory
                     @ [Question (confirmPrompt clonePrompt (Some No)), Pgrep,
                        Question (confirmPrompt killPrompt (Some Yes))]\<rparr>"
  have "confirmAndKillCura cloneDeclined ?c1 = (Ret False, ?c3)"
    by (simp add: guard_declined cloneDeclined_fields)
  then have 2: "run cloneDeclined = (Throw CuraStillRunning, ?c3)
      \<and> exitStatus (fst (run cloneDeclined)) = Some 1"
    using decline_kill_aborts [OF cloneDeclined_passes,
        of "[''bun'', ''curasync'', ''clone'', exampleUrl]" exampleUrl ?c1 ?c1 ?c3]
      cloneDeclined_invokes
    by (simp add: index_def cloneDeclined_fields confirm_y exampleUrl_not_empty exitStatus_def)
  from 1 2 show ?thesis by blast
qed

text \<open>
  Claim C4 as stated fails in one point. When the user declines the termination prompt
  of \<open>clone\<close>, the process does end with status 1 and nothing on disk has changed, but
  the program has written no message of its own: after the module-level checks it has
  only asked its two questions and looked the process up, and the end of the run is an
  uncaught error, which the runtime reports with its stack trace.
\<close>

theorem decline_kill_counterexample:
  "run cloneDeclined =
     (Throw CuraStillRunning,
      \<lparr>lines = [],
       trace = startupEvents exampleDirectory
               @ [Question (confirmPrompt clonePrompt (Some No)), Pgrep,
                  Question (confirmPrompt killPrompt (Some Yes))]\<rparr>)
   \<and> stackTrace (fst (run cloneDeclined))
   \<and> exitStatus (fst (run cloneDeclined)) = Some 1"
  by (simp add: cloneDeclined_run stackTrace_def exitStatus_def)

section \<open>No mutation before the process guard is passed\<close>

lemma guardedI:
  assumes "\<And>s. \<exists>pre post. trace (snd (m s)) = trace s @ pre @ post
        \<and> list_all (\<lambda>e. \<not> mutating e) pre \<and> (post \<noteq> [] \<longrightarrow> guardPassed w pre)"
  shows "guarded w m"
  using assms by (simp add: guarded_def)

lemma guardedD:
  assumes "guarded w m" and "m s = (r, s')"
  obtains pre post where "trace s' = trace s @ pre @ post"
    and "list_all (\<lambda>e. \<not> mutating e) pre" and "post \<noteq> [] \<longrightarrow> guardPassed w pre"
proof -
  from assms(1) obtain pre post where "trace (snd (m s)) = trace s @ pre @ post"
    "list_all (\<lambda>e. \<not> mutating e) pre" "post \<noteq> [] \<longrightarrow> guardPassed w pre"
    unfolding guarded_def by blast
  then show thesis using assms(2) that by simp
qed

lemma guarded_emits:
  assumes "emits (\<lambda>e. \<not> mutating e) m"
  shows "guarded w m"
proof (rule guardedI)
  fix s
  obtain es where "trace (snd (m s)) = trace s @ es" "list_all (\<lambda>e. \<not> mutating e) es"
    using assms unfolding emits_def by blast
  then show "\<exists>pre post. trace (snd (m s)) = trace s @ pre @ post
        \<and> list_all (\<lambda>e. \<not> mutating e) pre \<and> (post \<noteq> [] \<longrightarrow> guardPassed w pre)"
    by (intro exI [of _ es] exI [of _ "[]"]) simp
qed

lemma guardPassed_prepend: "guardPassed w evs \<Longrightarrow> guardPassed w (pre @ evs)"
  using guardPassed_append [of w evs pre "[]"] by simp

lemma guarded_bnd:
  assumes "guarded w m" and "\<And>x. guarded w (f x)"
  shows "guarded w (bnd m f)"
proof (rule guardedI)
  fix s
  obtain r s1 where m: "m s = (r, s1)" by (cases "m s")
  from guardedD [OF assms(1) m] obtain pre1 post1
    where p1: "trace s1 = trace s @ pre1 @ post1" "list_all (\<lambda>e. \<not> mutating e) pre1"
      "post1 \<noteq> [] \<longrightarrow> guardPassed w pre1" by blast
  have stop: "\<exists>pre post. trace s1 = trace s @ pre @ post
        \<and> list_all (\<lambda>e. \<not> mutating e) pre \<and> (post \<noteq> [] \<longrightarrow> guardPassed w pre)"
    using p1 by blast
  show "\<exists>pre post. trace (snd (bnd m f s)) = trace s @ pre @ post
        \<and> list_all (\<lambda>e. \<not> mutating e) pre \<and> (post \<noteq> [] \<longrightarrow> guardPassed w pre)"
  proof (cases r)
    case (Ret x)
    obtain r2 s2 where f: "f x s1 = (r2, s2)" by (cases "f x s1")
    from guardedD [OF assms(2) f] obtain pre2 post2
      where p2: "trace s2 = trace s1 @ pre2 @ post2" "list_all (\<lambda>e. \<not> mutating e) pre2"
        "post2 \<noteq> [] \<longrightarrow> guardPassed w pre2" by blast
    have b: "snd (bnd m f s) = s2" using m Ret f by (simp add: bnd_def)
    show ?thesis
    proof (cases "post1 = []")
      case True
      then show ?thesis using b p1 p2
        by (intro exI [of _ "pre1 @ pre2"] exI [of _ post2]) (auto intro: guardPassed_prepend)
    next
      case False
      then show ?thesis using b p1 p2
        by (intro exI [of _ pre1] exI [of _ "post1 @ pre2 @ post2"]) simp
    qed
  next
    case (Exit n)
    then have "snd (bnd m f s) = s1" using m by (simp add: bnd_def)
    then show ?thesis using stop by simp
  next
    case (Throw e)
    then have "snd (bnd m f s) = s1" using m by (simp add: bnd_def)
    then show ?thesis using stop by simp
  next
    case Blocked
    then have "snd (bnd m f s) = s1" using m by (simp add: bnd_def)
    then show ?thesis using stop by simp
  qed
qed

lemma guarded_ret: "guarded w (ret x)"
  by (rule guarded_emits) (rule emits_ret)

lemma guarded_exit: "guarded w (exit n)"
  by (rule guarded_emits) (rule emits_exit)

lemma guarded_throw: "guarded w (throw e)"
  by (rule guarded_emits) (rule emits_throw)

lemma guarded_emit: "\<not> mutating e \<Longrightarrow> guarded w (emit e)"
  by (rule guarded_emits) (rule emits_emit)

lemma guarded_confirm: "guarded w (confirm q d)"
  by (rule guarded_emits) (rule emits_confirm, simp)

lemma guarded_if:
  "(c \<Longrightarrow> guarded w a) \<Longrightarrow> (\<not> c \<Longrightarrow> guarded w b) \<Longrightarrow> guarded w (if c then a else b)"
  by simp

lemma guarded_case_option:
  "guarded w a \<Longrightarrow> (\<And>x. guarded w (b x)) \<Longrightarrow>
   guarded w (case v of None \<Rightarrow> a | Some x \<Rightarrow> b x)"
  by (cases v) simp_all

lemma guarded_after_guard:
  assumes "emits (\<lambda>e. True) rest"
  shows "guarded w (bnd (confirmAndKillCura w)
                      (\<lambda>killRes. if \<not> killRes then throw CuraStillRunning else rest))"
proof (rule guardedI)
  fix s
  let ?k = "\<lambda>killRes. if \<not> killRes then throw CuraStillRunning else rest"
  obtain r s1 where c: "confirmAndKillCura w s = (r, s1)"
    by (cases "confirmAndKillCura w s")
  obtain es where es: "trace s1 = trace s @ es" "list_all (\<lambda>e. \<not> mutating e) es"
      "r = Ret True \<longrightarrow> guardPassed w es"
    using confirmAndKillCura_guard [OF c] by blast
  show "\<exists>pre post. trace (snd (bnd (confirmAndKillCura w) ?k s)) = trace s @ pre @ post
        \<and> list_all (\<lambda>e. \<not> mutating e) pre \<and> (post \<noteq> [] \<longrightarrow> guardPassed w pre)"
  proof (cases "r = Ret True")
    case True
    obtain r2 s2 where rest: "rest s1 = (r2, s2)" by (cases "rest s1")
    obtain post where "trace s2 = trace s1 @ post"
      using emitsD [OF assms rest] by blast
    moreover have "bnd (confirmAndKillCura w) ?k s = (r2, s2)"
      using c True rest by (simp add: bnd_def)
    ultimately show ?thesis using es True
      by (intro exI [of _ es] exI [of _ post]) simp
  next
    case False
    then have "snd (bnd (confirmAndKillCura w) ?k s) = s1"
      using c by (cases r) (auto simp: bnd_def throw_def)
    then show ?thesis using es
      by (intro exI [of _ es] exI [of _ "[]"]) simp
  qed
qed

lemma guarded_initializeRepo: "guarded w (initializeRepo w g url)"
  unfolding initializeRepo_def
  by (rule guarded_after_guard)
     (intro emits_bnd emits_if emits_ret emits_execFileSync emits_writeFileSync TrueI)

lemma guarded_mainInit: "guarded w (mainInit w g ps)"
  unfolding mainInit_def
  by (intro guarded_bnd guarded_if guarded_case_option guarded_confirm guarded_exit
      guarded_ret guarded_emit guarded_initializeRepo) simp_all

lemma guarded_mainClone: "guarded w (mainClone w ps)"
  unfolding mainClone_def Let_def
  apply (intro guarded_case_option guarded_if guarded_after_guard guarded_bnd
      guarded_confirm guarded_exit guarded_emit)
       apply simp_all
  apply (intro emits_bnd emits_emit emits_liftE emits_execFileSync emits_exit TrueI)
  done

lemma main_init: "invokes w ''init'' ps \<Longrightarrow> main w g = mainInit w g ps"
  using index_Some_length [of ps 2 "''init''"] by (simp add: main_def invokes_def)

lemma main_clone: "invokes w ''clone'' ps \<Longrightarrow> main w g = mainClone w ps"
  using index_Some_length [of ps 2 "''clone''"] by (simp add: main_def invokes_def)

lemma probe_not_mutating: "probe e \<Longrightarrow> \<not> mutating e"
  by (cases e) auto

lemma guarded_run:
  assumes "invokes w ''init'' ps \<or> invokes w ''clone'' ps"
  shows "guarded w (bnd (startup w) (main w))"
proof (rule guarded_bnd)
  show "guarded w (startup w)"
    by (rule guarded_emits, rule emits_mono [OF emits_startup]) (rule probe_not_mutating)
  show "guarded w (main w g)" for g
    using assms guarded_mainInit [of w g ps] guarded_mainClone [of w ps]
    by (auto simp: main_init main_clone)
qed

section \<open>The order of initialisation\<close>

lemma execFileSync_eq:
  "execFileSync w file args cwd s =
     (if execFails w file args
      then (Throw (ExecFileFailed file args), s\<lparr>trace := trace s @ [ExecFile file args cwd]\<rparr>)
      else (Ret (), s\<lparr>trace := trace s @ [ExecFile file args cwd]\<rparr>))"
  by (simp add: execFileSync_def throw_def ret_def)

lemma writeFileSync_eq:
  "writeFileSync w p c s =
     (if writeFails w p
      then (Throw (WriteFileFailed p), s\<lparr>trace := trace s @ [WriteFile p c]\<rparr>)
      else (Ret (), s\<lparr>trace := trace s @ [WriteFile p c]\<rparr>))"
  by (simp add: writeFileSync_def throw_def ret_def)

lemma bnd_execFileSync:
  "bnd (execFileSync w file args cwd) k s =
     (if execFails w file args
      then (Throw (ExecFileFailed file args), s\<lparr>trace := trace s @ [ExecFile file args cwd]\<rparr>)
      else k () (s\<lparr>trace := trace s @ [ExecFile file args cwd]\<rparr>))"
  by (simp add: bnd_def execFileSync_eq)

lemma prefix_by_length:
  assumes "take (length xs) ys = xs"
    and "drop (length xs) ys = take (length ys - length xs) zs"
  shows "\<exists>k. ys = xs @ take k zs"
proof -
  have "ys = take (length xs) ys @ drop (length xs) ys" by simp
  then have "ys = xs @ take (length ys - length xs) zs" using assms by simp
  then show ?thesis by blast
qed

text \<open>The part of \<open>initializeRepo\<close> that follows the process guard.\<close>

lemma initializeRepo_Ret_True:
  assumes "confirmAndKillCura w s = (Ret True, s1)"
  shows "initializeRepo w g url s =
     bnd (if isGitInitialized g
          then execFileSync w ''rm'' [''-rf'', ''.git''] (Some (curaDirectory g))
          else ret ()) (\<lambda>_.
     bnd (execFileSync w ''git'' [''init''] (Some (curaDirectory g))) (\<lambda>_.
     bnd (execFileSync w ''git'' [''remote'', ''add'', ''origin'', url]
            (Some (curaDirectory g))) (\<lambda>_.
     bnd (execFileSync w ''git'' [''add'', ''.''] (Some (curaDirectory g))) (\<lambda>_.
     bnd (execFileSync w ''git'' [''commit'', ''-m'', ''[curasync] init'']
            (Some (curaDirectory g))) (\<lambda>_.
     bnd (execFileSync w ''git'' [''push'', ''-u'', ''origin'', ''main'']
            (Some (curaDirectory g))) (\<lambda>_.
     writeFileSync w (pathJoin w (curaDirectory g) ''.gitignore'') gitignoreContent)))))) s1"
  unfolding initializeRepo_def
  by (simp add: bnd_Ret [where m = "confirmAndKillCura w" and s = s, OF assms])

lemma initializeRepo_after_guard:
  assumes "confirmAndKillCura w s = (Ret True, s1)"
  shows "(\<exists>k. trace (snd (initializeRepo w g url s)) = trace s1 @ take k (initSteps w g url))
     \<and> (fst (initializeRepo w g url s) = Ret ()
          \<longrightarrow> trace (snd (initializeRepo w g url s)) = trace s1 @ initSteps w g url)"
proof (cases "isGitInitialized g")
  case True
  show ?thesis
  proof
    show "\<exists>k. trace (snd (initializeRepo w g url s)) = trace s1 @ take k (initSteps w g url)"
      using True
      by (intro prefix_by_length)
         (simp_all add: initializeRepo_Ret_True [OF assms] bnd_execFileSync writeFileSync_eq
            initSteps_def)
    show "fst (initializeRepo w g url s) = Ret ()
          \<longrightarrow> trace (snd (initializeRepo w g url s)) = trace s1 @ initSteps w g url"
      using True
      by (simp add: initializeRepo_Ret_True [OF assms] bnd_execFileSync writeFileSync_eq
            initSteps_def)
  qed
next
  case False
  show ?thesis
  proof
    show "\<exists>k. trace (snd (initializeRepo w g url s)) = trace s1 @ take k (initSteps w g url)"
      using False
      by (intro prefix_by_length)
         (simp_all add: initializeRepo_Ret_True [OF assms] bnd_execFileSync writeFileSync_eq
            initSteps_def)
    show "fst (initializeRepo w g url s) = Ret ()
          \<longrightarrow> trace (snd (initializeRepo w g url s)) = trace s1 @ initSteps w g url"
      using False
      by (simp add: initializeRepo_Ret_True [OF assms] bnd_execFileSync writeFileSync_eq
            initSteps_def)
  qed
qed

lemma initializeRepo_success_guard:
  assumes "initializeRepo w g url s = (Ret (), s')"
  shows "\<exists>s1. confirmAndKillCura w s = (Ret True, s1)"
proof -
  obtain r s1 where c: "confirmAndKillCura w s = (r, s1)"
    by (cases "confirmAndKillCura w s")
  have "r = Ret True"
  proof (rule ccontr)
    assume "r \<noteq> Ret True"
    then have "fst (initializeRepo w g url s) \<noteq> Ret ()"
      using c by (cases r) (auto simp: initializeRepo_def bnd_def throw_def)
    then show False using assms by simp
  qed
  then show ?thesis using c by blast
qed

lemma example_gitignore_path:
  "posixJoin ''/home/ada/.local/share/cura'' ''.gitignore'' =
     ''/home/ada/.local/share/cura/.gitignore''"
  by code_simp

lemma example_initializeRepo:
  "initializeRepo exampleWorld (globalsOf exampleWorld exampleDirectory) exampleUrl
     \<lparr>lines = [], trace = []\<rparr> =
   (Ret (),
    \<lparr>lines = [],
     trace = Pgrep # initSteps exampleWorld (globalsOf exampleWorld exampleDirectory) exampleUrl\<rparr>)"
proof -
  have nr: "notRunning exampleWorld"
    by (simp add: notRunning_def exampleWorld_def)
  have ok: "execFails exampleWorld = (\<lambda>file args. False)"
     "writeFails exampleWorld = (\<lambda>p. False)"
    by (simp_all add: exampleWorld_def)
  show ?thesis
    by (simp add: initializeRepo_Ret_True [OF guard_not_running [OF nr]] bnd_execFileSync
        writeFileSync_eq ok globalsOf_def initSteps_def)
qed

text \<open>
  Claim C2. Every run of \<open>initializeRepo\<close> that returns has passed the process guard
  and has then performed, in this order and with nothing in between: the removal of the
  old repository metadata (when the directory was found to be a repository at start),
  \<open>git init\<close>, \<open>git remote add origin\<close> with the given URL, \<open>git add .\<close>,
  \<open>git commit -m "[curasync] init"\<close>, \<open>git push -u origin main\<close>, and last the write of
  the ignore file, which therefore is not part of the commit. And whenever the guard is
  passed, whether the run returns or a step throws, what is done is a prefix of these
  steps: a failure stops the run where it is and nothing is undone.
\<close>

theorem initializeRepo_order:
  "(initializeRepo w g url s = (Ret (), s')
      \<longrightarrow> (\<exists>s1. confirmAndKillCura w s = (Ret True, s1)
              \<and> trace s' = trace s1 @ initSteps w g url))
   \<and> (confirmAndKillCura w s = (Ret True, s1)
      \<longrightarrow> (\<exists>k. trace (snd (initializeRepo w g url s)) = trace s1 @ take k (initSteps w g url)))"
proof (intro conjI impI)
  assume ok: "initializeRepo w g url s = (Ret (), s')"
  then obtain s1 where g: "confirmAndKillCura w s = (Ret True, s1)"
    using initializeRepo_success_guard by blast
  then have "trace s' = trace s1 @ initSteps w g url"
    using initializeRepo_after_guard [OF g, of g url] ok by simp
  then show "\<exists>s1. confirmAndKillCura w s = (Ret True, s1)
              \<and> trace s' = trace s1 @ initSteps w g url"
    using g by blast
next
  assume "confirmAndKillCura w s = (Ret True, s1)"
  then show "\<exists>k. trace (snd (initializeRepo w g url s)) = trace s1 @ take k (initSteps w g url)"
    using initializeRepo_after_guard by blast
qed

theorem initializeRepo_order_witness:
  "fst (initializeRepo exampleWorld (globalsOf exampleWorld exampleDirectory) exampleUrl
          \<lparr>lines = [], trace = []\<rparr>) = Ret ()
   \<and> trace (snd (initializeRepo exampleWorld (globalsOf exampleWorld exampleDirectory)
                   exampleUrl \<lparr>lines = [], trace = []\<rparr>)) =
       [Pgrep,
        ExecFile ''rm'' [''-rf'', ''.git''] (Some ''/home/ada/.local/share/cura''),
        ExecFile ''git'' [''init''] (Some ''/home/ada/.local/share/cura''),
        ExecFile ''git'' [''remote'', ''add'', ''origin'', exampleUrl]
          (Some ''/home/ada/.local/share/cura''),
        ExecFile ''git'' [''add'', ''.''] (Some ''/home/ada/.local/share/cura''),
        ExecFile ''git'' [''commit'', ''-m'', ''[curasync] init'']
          (Some ''/home/ada/.local/share/cura''),
        ExecFile ''git'' [''push'', ''-u'', ''origin'', ''main'']
          (Some ''/home/ada/.local/share/cura''),
        WriteFile ''/home/ada/.local/share/cura/.gitignore'' gitignoreContent]"
proof -
  let ?g = "globalsOf exampleWorld exampleDirectory"
  let ?s = "\<lparr>lines = [], trace = []\<rparr>"
  let ?s' = "\<lparr>lines = [], trace = Pgrep # initSteps exampleWorld ?g exampleUrl\<rparr>"
  have nr: "notRunning exampleWorld"
    by (simp add: notRunning_def exampleWorld_def)
  have run: "initializeRepo exampleWorld ?g exampleUrl ?s = (Ret (), ?s')"
    by (rule example_initializeRepo)
  obtain s1 where s1: "confirmAndKillCura exampleWorld ?s = (Ret True, s1)"
      "trace ?s' = trace s1 @ initSteps exampleWorld ?g exampleUrl"
    using initializeRepo_order [of exampleWorld ?g exampleUrl ?s ?s'] run by blast
  have "trace s1 = [Pgrep]"
    using s1(1) guard_not_running [OF nr, of ?s] by auto
  then have "trace ?s' = [Pgrep] @ initSteps exampleWorld ?g exampleUrl"
    using s1(2) by simp
  then show ?thesis
    using run
    by (simp add: initSteps_def globalsOf_def exampleWorld_def exampleDirectory_def
        pathJoin_def example_gitignore_path)
qed

section \<open>Backup before clone\<close>

lemma splitOn_no_sep: "sep \<notin> set a \<Longrightarrow> splitOn sep a = [a]"
  by (induction a) auto

lemma splitOn_append_sep:
  "sep \<notin> set a \<Longrightarrow> splitOn sep (a @ sep # rest) = a # splitOn sep rest"
  by (induction a) auto

lemma stringOfNat_digits: "set (stringOfNat n) \<subseteq> set ''0123456789''"
proof (induction n rule: stringOfNat.induct)
  case (1 n)
  have d: "''0123456789'' ! k \<in> set ''0123456789''" if "k < 10" for k
    using that by (intro nth_mem) simp
  show ?case
  proof (cases "n < 10")
    case True
    then show ?thesis using d [of n] by (subst stringOfNat.simps) simp
  next
    case False
    have "n mod 10 < 10" by simp
    then show ?thesis using False 1 d [of "n mod 10"]
      by (subst stringOfNat.simps) simp
  qed
qed

lemma stringOfNat_not_empty: "stringOfNat n \<noteq> []"
  by (subst stringOfNat.simps) simp

lemma stringOfNat_no_slash: "CHR ''/'' \<notin> set (stringOfNat n)"
  using stringOfNat_digits [of n] by auto

lemma last_stringOfNat: "last (stringOfNat n) \<noteq> CHR ''/''"
  using stringOfNat_no_slash [of n] stringOfNat_not_empty [of n] last_in_set by metis

lemma linux_backup:
  assumes "plainName u"
  shows "posixJoin (''/home/'' @ u @ ''/.local/share/cura'') (''../cura_backup_'' @ stringOfNat n) =
         ''/home/'' @ u @ ''/.local/share/cura_backup_'' @ stringOfNat n"
proof -
  let ?ts = "stringOfNat n"
  let ?p = "''/home/'' @ u @ ''/.local/share/cura/../cura_backup_'' @ ?ts"
  have u: "CHR ''/'' \<notin> set u" "u \<noteq> []" "u \<noteq> ''.''" "u \<noteq> ''..''"
    using assms by (simp_all add: plainName_def)
  have split: "splitOn (CHR ''/'') ?p =
      ['''', ''home'', u, ''.local'', ''share'', ''cura'', ''..'', ''cura_backup_'' @ ?ts]"
    using u(1) by (simp add: splitOn_append_sep splitOn_no_sep [OF stringOfNat_no_slash])
  have norm: "normalizeSegments False []
      ['''', ''home'', u, ''.local'', ''share'', ''cura'', ''..'', ''cura_backup_'' @ ?ts] =
      [''cura_backup_'' @ ?ts, ''share'', ''.local'', u, ''home'']"
    using u by simp
  have last: "last ?p \<noteq> CHR ''/''"
    using last_stringOfNat [of n] stringOfNat_not_empty [of n] by simp
  have "posixNormalize ?p = ''/home/'' @ u @ ''/.local/share/cura_backup_'' @ ?ts"
    unfolding posixNormalize_def Let_def split norm
    using last u stringOfNat_not_empty [of n] by simp
  then show ?thesis by (simp add: posixJoin_def)
qed

lemma darwin_backup:
  assumes "plainName u"
  shows "posixJoin (''/Users/'' @ u @ ''/Library/Application Support/cura'')
           (''../cura_backup_'' @ stringOfNat n) =
         ''/Users/'' @ u @ ''/Library/Application Support/cura_backup_'' @ stringOfNat n"
proof -
  let ?ts = "stringOfNat n"
  let ?p = "''/Users/'' @ u @ ''/Library/Application Support/cura/../cura_backup_'' @ ?ts"
  have u: "CHR ''/'' \<notin> set u" "u \<noteq> []" "u \<noteq> ''.''" "u \<noteq> ''..''"
    using assms by (simp_all add: plainName_def)
  have split: "splitOn (CHR ''/'') ?p =
      ['''', ''Users'', u, ''Library'', ''Application Support'', ''cura'', ''..'',
       ''cura_backup_'' @ ?ts]"
    using u(1) by (simp add: splitOn_append_sep splitOn_no_sep [OF stringOfNat_no_slash])
  have norm: "normalizeSegments False []
      ['''', ''Users'', u, ''Library'', ''Application Support'', ''cura'', ''..'',
       ''cura_backup_'' @ ?ts] =
      [''cura_backup_'' @ ?ts, ''Application Support'', ''Library'', u, ''Users'']"
    using u by simp
  have last: "last ?p \<noteq> CHR ''/''"
    using last_stringOfNat [of n] stringOfNat_not_empty [of n] by simp
  have "posixNormalize ?p = ''/Users/'' @ u @ ''/Library/Application Support/cura_backup_'' @ ?ts"
    unfolding posixNormalize_def Let_def split norm
    using last u stringOfNat_not_empty [of n] by simp
  then show ?thesis by (simp add: posixJoin_def)
qed

lemma mainClone_after_guard:
  assumes "index ps 3 = Some url" "url \<noteq> []" "isValidUrl w url"
    and "getDefaultCuraDirectory w = Inr dir"
    and "confirm clonePrompt (Some No) s = (Ret (Some Yes), s1)"
    and "confirmAndKillCura w s1 = (Ret True, s2)"
  shows "mainClone w ps s =
     (let backup = backupDirectory w dir;
          backing = Log ''Backing up your current cura configuration...'';
          mv = ExecFile ''mv'' [dir, backup] None;
          mkdir = ExecFile ''mkdir'' [dir] None;
          backed = Log ''Cura folder has been backed up successfully.'';
          cloning = Log (''Cloning from '' @ url @ ''...'');
          clone = ExecFile ''git'' [''clone'', url, ''.''] (Some dir);
          completed = Log ''Clone operation completed successfully. Try opening cura''
      in if execFails w ''mv'' [dir, backup] then
           (Throw (ExecFileFailed ''mv'' [dir, backup]),
            s2\<lparr>trace := trace s2 @ [backing, mv]\<rparr>)
         else if execFails w ''mkdir'' [dir] then
           (Throw (ExecFileFailed ''mkdir'' [dir]),
            s2\<lparr>trace := trace s2 @ [backing, mv, mkdir]\<rparr>)
         else if execFails w ''git'' [''clone'', url, ''.''] then
           (Throw (ExecFileFailed ''git'' [''clone'', url, ''.'']),
            s2\<lparr>trace := trace s2 @ [backing, mv, mkdir, backed, cloning, clone]\<rparr>)
         else
           (Exit 0,
            s2\<lparr>trace := trace s2 @ [backing, mv, mkdir, backed, cloning, clone, completed]\<rparr>))"
  using assms
  by (simp add: mainClone_def bnd_def emit_def liftE_def execFileSync_eq exit_def ret_def Let_def
      backupDirectory_def)

lemma backupDirectory_posix:
  assumes "getDefaultCuraDirectory w = Inr dir" and "plainName (username w)"
  shows "(platform w = ''linux'' \<longrightarrow>
            backupDirectory w dir =
              ''/home/'' @ username w @ ''/.local/share/cura_backup_'' @ stringOfNat (now w))
       \<and> (platform w = ''darwin'' \<longrightarrow>
            backupDirectory w dir =
              ''/Users/'' @ username w @ ''/Library/Application Support/cura_backup_''
              @ stringOfNat (now w))"
  using assms linux_backup [of "username w" "now w"] darwin_backup [of "username w" "now w"]
  by (auto simp: backupDirectory_def pathJoin_def getDefaultCuraDirectory_def
      getOperatingSystem_def)

lemma cloneAccepted_passes: "startupPasses cloneAccepted exampleDirectory"
  by (rule example_startup) (simp_all add: cloneAccepted_def exampleWorld_def)

lemma cloneAccepted_invokes:
  "invokes cloneAccepted ''clone'' [''bun'', ''curasync'', ''clone'', exampleUrl]"
  by (simp add: invokes_def isOptionArg_def index_def cloneAccepted_def exampleUrl_def)

lemma cloneAccepted_fields:
  "stdin cloneAccepted = [''y'', ''y'']" "isValidUrl cloneAccepted exampleUrl"
  "pgrepExit cloneAccepted = 0" "pgrepStdout cloneAccepted = ''4242\<newline>''"
  "killExit cloneAccepted = 0" "execFails cloneAccepted = (\<lambda>file args. False)"
  "platform cloneAccepted = ''linux''" "username cloneAccepted = ''ada''"
  "now cloneAccepted = 1700000000123"
  by (simp_all add: cloneAccepted_def exampleWorld_def isValidUrl_def)

lemma example_time_text: "stringOfNat 1700000000123 = ''1700000000123''"
  by (simp add: stringOfNat.simps)

lemma ada_plain: "plainName ''ada''"
  by (simp add: plainName_def)

lemma cloneAccepted_confirm:
  "confirm clonePrompt (Some No)
     \<lparr>lines = stdin cloneAccepted, trace = startupEvents exampleDirectory\<rparr> =
   (Ret (Some Yes),
    \<lparr>lines = [''y''],
     trace = startupEvents exampleDirectory @ [Question (confirmPrompt clonePrompt (Some No))]\<rparr>)"
  by (simp add: cloneAccepted_fields confirm_y)

lemma cloneAccepted_guard:
  "confirmAndKillCura cloneAccepted
     \<lparr>lines = [''y''],
      trace = startupEvents exampleDirectory @ [Question (confirmPrompt clonePrompt (Some No))]\<rparr> =
   (Ret True,
    \<lparr>lines = [],
     trace = startupEvents exampleDirectory
             @ [Question (confirmPrompt clonePrompt (Some No)), Pgrep,
                Question (confirmPrompt killPrompt (Some Yes)), Kill (JNum 4242)]\<rparr>)"
  by (simp add: guard_accepted cloneAccepted_fields)

lemma cloneAccepted_backup:
  "backupDirectory cloneAccepted ''/home/ada/.local/share/cura'' =
     ''/home/ada/.local/share/cura_backup_1700000000123''"
proof -
  have "getDefaultCuraDirectory cloneAccepted = Inr exampleDirectory"
    using cloneAccepted_passes by (simp add: startupPasses_def)
  from backupDirectory_posix [OF this] show ?thesis
    by (simp add: cloneAccepted_fields ada_plain example_time_text exampleDirectory_def)
qed

lemma cloneAccepted_run:
  "run cloneAccepted =
     (Exit 0,
      \<lparr>lines = [],
       trace = startupEvents exampleDirectory
               @ [Question (confirmPrompt clonePrompt (Some No)), Pgrep,
                  Question (confirmPrompt killPrompt (Some Yes)), Kill (JNum 4242),
                  Log ''Backing up your current cura configuration...'',
                  ExecFile ''mv'' [''/home/ada/.local/share/cura'',
                                   ''/home/ada/.local/share/cura_backup_1700000000123''] None,
                  ExecFile ''mkdir'' [''/home/ada/.local/share/cura''] None,
                  Log ''Cura folder has been backed up successfully.'',
                  Log (''Cloning from '' @ exampleUrl @ ''...''),
                  ExecFile ''git'' [''clone'', exampleUrl, ''.'']
                    (Some ''/home/ada/.local/share/cura''),
                  Log ''Clone operation completed successfully. Try opening cura'']\<rparr>)"
proof -
  have dir: "getDefaultCuraDirectory cloneAccepted = Inr exampleDirectory"
    using cloneAccepted_passes by (simp add: startupPasses_def)
  have "index [''bun'', ''curasync'', ''clone'', exampleUrl] 3 = Some exampleUrl"
    by (simp add: index_def)
  from mainClone_after_guard [OF this exampleUrl_not_empty cloneAccepted_fields(2) dir
      cloneAccepted_confirm cloneAccepted_guard]
  show ?thesis
    using run_clone [OF cloneAccepted_passes cloneAccepted_invokes]
    by (simp add: cloneAccepted_fields cloneAccepted_backup exampleDirectory_def)
qed

text \<open>
  Claim C1. Take a \<open>clone\<close> invocation that passes the module-level checks and has a
  well-formed URL, in which the user confirms the operation and the process guard lets
  the program through (the companion application is not running, or it is terminated).
  Up to that point nothing on disk has changed. Then the program issues one \<open>mv\<close> of
  the configuration directory to the backup path (a rename, there is no copy command),
  then \<open>mkdir\<close> of the original path, and only then \<open>git clone\<close> into it: in exactly
  this order, each step only when the one before succeeded, and nothing else in between
  but terminal output. The backup path is \<open>path.join(dir, "../cura_backup_" + Date.now())\<close>;
  on Linux and macOS, for a user name that is a plain path segment, this is the
  sibling \<open>cura_backup_<timestamp>\<close> in the parent of the configuration directory, with
  the timestamp the decimal text of the milliseconds since the epoch.
\<close>

theorem clone_backup_order:
  assumes "startupPasses w dir" and "invokes w ''clone'' ps"
    and "index ps 3 = Some url" and "url \<noteq> []" and "isValidUrl w url"
    and "confirm clonePrompt (Some No) \<lparr>lines = stdin w, trace = startupEvents dir\<rparr>
           = (Ret (Some Yes), s1)"
    and "confirmAndKillCura w s1 = (Ret True, s2)"
  shows "run w =
     (let backup = backupDirectory w dir;
          backing = Log ''Backing up your current cura configuration...'';
          mv = ExecFile ''mv'' [dir, backup] None;
          mkdir = ExecFile ''mkdir'' [dir] None;
          backed = Log ''Cura folder has been backed up successfully.'';
          cloning = Log (''Cloning from '' @ url @ ''...'');
          clone = ExecFile ''git'' [''clone'', url, ''.''] (Some dir);
          completed = Log ''Clone operation completed successfully. Try opening cura''
      in if execFails w ''mv'' [dir, backup] then
           (Throw (ExecFileFailed ''mv'' [dir, backup]),
            s2\<lparr>trace := trace s2 @ [backing, mv]\<rparr>)
         else if execFails w ''mkdir'' [dir] then
           (Throw (ExecFileFailed ''mkdir'' [dir]),
            s2\<lparr>trace := trace s2 @ [backing, mv, mkdir]\<rparr>)
         else if execFails w ''git'' [''clone'', url, ''.''] then
           (Throw (ExecFileFailed ''git'' [''clone'', url, ''.'']),
            s2\<lparr>trace := trace s2 @ [backing, mv, mkdir, backed, cloning, clone]\<rparr>)
         else
           (Exit 0,
            s2\<lparr>trace := trace s2 @ [backing, mv, mkdir, backed, cloning, clone, completed]\<rparr>))
   \<and> \<not> list_ex mutating (trace s2)
   \<and> (platform w = ''linux'' \<and> plainName (username w) \<longrightarrow>
         backupDirectory w dir =
           ''/home/'' @ username w @ ''/.local/share/cura_backup_'' @ stringOfNat (now w))
   \<and> (platform w = ''darwin'' \<and> plainName (username w) \<longrightarrow>
         backupDirectory w dir =
           ''/Users/'' @ username w @ ''/Library/Application Support/cura_backup_''
           @ stringOfNat (now w))"
proof -
  have dir: "getDefaultCuraDirectory w = Inr dir"
    using assms(1) by (simp add: startupPasses_def)
  have 1: "run w = mainClone w ps \<lparr>lines = stdin w, trace = startupEvents dir\<rparr>"
    by (rule run_clone [OF assms(1,2)])
  note 2 = mainClone_after_guard [OF assms(3,4,5) dir assms(6,7)]
  obtain k where "trace s1 = startupEvents dir @ replicate k (Question (confirmPrompt clonePrompt (Some No)))"
    using confirm_questions [OF assms(6)] by auto
  moreover obtain es where "trace s2 = trace s1 @ es" "list_all (\<lambda>e. \<not> mutating e) es"
    using confirmAndKillCura_guard [OF assms(7)] by blast
  ultimately have 3: "\<not> list_ex mutating (trace s2)"
    by (auto simp: startupEvents_def list_ex_iff list_all_iff)
  show ?thesis
    using 1 2 3 backupDirectory_posix [OF dir] by simp
qed
theorem clone_backup_order_witness:
  "run cloneAccepted =
     (Exit 0,
      \<lparr>lines = [],
       trace = startupEvents exampleDirectory
               @ [Question (confirmPrompt clonePrompt (Some No)), Pgrep,
                  Question (confirmPrompt killPrompt (Some Yes)), Kill (JNum 4242),
                  Log ''Backing up your current cura configuration...'',
                  ExecFile ''mv'' [''/home/ada/.local/share/cura'',
                                   ''/home/ada/.local/share/cura_backup_1700000000123''] None,
                  ExecFile ''mkdir'' [''/home/ada/.local/share/cura''] None,
                  Log ''Cura folder has been backed up successfully.'',
                  Log (''Cloning from '' @ exampleUrl @ ''...''),
                  ExecFile ''git'' [''clone'', exampleUrl, ''.'']
                    (Some ''/home/ada/.local/share/cura''),
                  Log ''Clone operation completed successfully. Try opening cura'']\<rparr>)"
proof -
  have "index [''bun'', ''curasync'', ''clone'', exampleUrl] 3 = Some exampleUrl"
    by (simp add: index_def)
  from clone_backup_order [OF cloneAccepted_passes cloneAccepted_invokes this
      exampleUrl_not_empty cloneAccepted_fields(2) cloneAccepted_confirm cloneAccepted_guard]
  show ?thesis
    by (simp add: cloneAccepted_fields cloneAccepted_backup exampleDirectory_def)
qed

section \<open>Mutations stand behind the process guard\<close>


section \<open>Nothing to push\<close>

lemma bnd_assoc: "bnd (bnd m f) h = bnd m (\<lambda>x. bnd (f x) h)"
  by (rule ext) (simp add: bnd_def split: prod.splits res.splits)

lemma mainPush_split:
  "mainPush w g =
     bnd (pushGuard w) (\<lambda>_.
     bnd (isCuraDirty w g) (\<lambda>isDirty.
     if \<not> isDirty then
       bnd (emit (ConsoleError ''Looks like there are no changes to push'')) (\<lambda>_. exit 1)
     else
     bnd (emit (Log ''pushing config to origin'')) (\<lambda>_.
     bnd (execFileSync w ''git'' [''add'', ''.''] (Some (curaDirectory g))) (\<lambda>_.
     bnd (printDiff w g) (\<lambda>_.
     bnd (ask ''Enter a message describing what you changed:'' None) (\<lambda>commitMessage.
     bnd (execFileSync w ''git'' [''commit'', ''-m'', ''[curasync] '' @ commitMessage]
            (Some (curaDirectory g))) (\<lambda>_.
     bnd (execFileSync w ''git'' [''push''] (Some (curaDirectory g))) (\<lambda>_.
     bnd (emit (Log ''pushed config to origin!'')) (\<lambda>_. exit 0)))))))))"
  unfolding mainPush_def pushGuard_def bnd_assoc ..

lemma mainPush_clean:
  assumes "diffIndexExit w \<noteq> 1" and "pushGuard w s = (r, s1)"
  shows "mainPush w g s =
     (case r of
        Ret x \<Rightarrow> (Exit 1, s1\<lparr>trace := trace s1 @ [DiffIndex (curaDirectory g),
                                                 ConsoleError nothingToPush]\<rparr>)
      | Exit n \<Rightarrow> (Exit n, s1) | Throw e \<Rightarrow> (Throw e, s1) | Blocked \<Rightarrow> (Blocked, s1))"
proof (cases r)
  case (Ret x)
  then have "mainPush w g s =
      bnd (isCuraDirty w g) (\<lambda>isDirty.
        if \<not> isDirty then
          bnd (emit (ConsoleError ''Looks like there are no changes to push'')) (\<lambda>_. exit 1)
        else
          bnd (emit (Log ''pushing config to origin'')) (\<lambda>_.
          bnd (execFileSync w ''git'' [''add'', ''.''] (Some (curaDirectory g))) (\<lambda>_.
          bnd (printDiff w g) (\<lambda>_.
          bnd (ask ''Enter a message describing what you changed:'' None) (\<lambda>commitMessage.
          bnd (execFileSync w ''git'' [''commit'', ''-m'', ''[curasync] '' @ commitMessage]
                 (Some (curaDirectory g))) (\<lambda>_.
          bnd (execFileSync w ''git'' [''push''] (Some (curaDirectory g))) (\<lambda>_.
          bnd (emit (Log ''pushed config to origin!'')) (\<lambda>_. exit 0)))))))) s1"
    using assms(2) unfolding mainPush_split
    by (simp add: bnd_Ret [where m = "pushGuard w" and s = s])
  then show ?thesis
    using assms(1) Ret by (simp add: isCuraDirty_def bnd_assoc exit_def nothingToPush_def)
next
  case (Exit n)
  then show ?thesis using assms(2) unfolding mainPush_split
    by (simp add: bnd_Exit [where m = "pushGuard w" and s = s])
next
  case (Throw e)
  then show ?thesis using assms(2) unfolding mainPush_split
    by (simp add: bnd_Throw [where m = "pushGuard w" and s = s])
next
  case Blocked
  then show ?thesis using assms(2) unfolding mainPush_split
    by (simp add: bnd_Blocked [where m = "pushGuard w" and s = s])
qed

lemma emits_getCuraPid: "emits guardEvent (getCuraPid w)"
  unfolding getCuraPid_def Let_def
  by (intro emits_bnd emits_emit emits_if emits_ret emits_throw) simp_all

lemma emits_killProcess: "emits guardEvent (killProcess w pid)"
  unfolding killProcess_def
  by (intro emits_bnd emits_emit emits_if emits_ret emits_throw) simp_all

lemma emits_pushGuard: "emits guardEvent (pushGuard w)"
  unfolding pushGuard_def
proof (intro emits_bnd emits_getCuraPid)
  fix curaPid
  show "emits guardEvent
     (case curaPid of
        None \<Rightarrow> ret ()
      | Some pid \<Rightarrow>
          if truthy pid then
            bnd (confirm quitPrompt (Some Yes)) (\<lambda>quitCura.
              if quitCura = Some Yes then
                bnd (killProcess w pid) (\<lambda>_. emit (Sleep 1000))
              else ret ())
          else ret ())"
    by (cases curaPid)
       (auto intro!: emits_bnd emits_if emits_ret emits_confirm emits_killProcess emits_emit)
qed

lemma pushGuard_found:
  assumes "\<not> notRunning w" "pgrepExit w = 0" "Number (trim (pgrepStdout w)) \<noteq> JNaN"
    and "truthy (Number (trim (pgrepStdout w)))"
    and "confirm quitPrompt (Some Yes) (s\<lparr>trace := trace s @ [Pgrep]\<rparr>) = (r2, s2)"
  shows "pushGuard w s =
     (case r2 of
        Ret a \<Rightarrow>
          if a = Some Yes then
            (if killExit w \<noteq> 0
             then (Throw (KillFailed (killStderr w)),
                   s2\<lparr>trace := trace s2 @ [Kill (Number (trim (pgrepStdout w)))]\<rparr>)
             else (Ret (),
                   s2\<lparr>trace := trace s2 @ [Kill (Number (trim (pgrepStdout w))), Sleep 1000]\<rparr>))
          else (Ret (), s2)
      | Exit n \<Rightarrow> (Exit n, s2) | Throw e \<Rightarrow> (Throw e, s2) | Blocked \<Rightarrow> (Blocked, s2))"
  using assms
  by (cases r2)
     (simp_all add: pushGuard_def bnd_def getCuraPid_eq killProcess_eq ret_def emit_def)

lemma two_pids_text: "trim ''4242\<newline>4343\<newline>'' = ''4242\<newline>4343''"
  by code_simp

lemma two_pids_not_a_number: "Number (trim ''4242\<newline>4343\<newline>'') = JNaN"
proof -
  have "trim ''4242\<newline>4343'' = ''4242\<newline>4343''" by code_simp
  then show ?thesis
    by (simp add: two_pids_text Number_def startsWith_def strDecimalLiteral_def
        unsignedDecimal_def digitOf_def)
qed

lemma pushFound_passes: "startupPasses pushFound exampleDirectory"
  by (rule example_startup) (simp_all add: pushFound_def exampleWorld_def)

lemma pushFound_invokes: "invokes pushFound ''push'' [''bun'', ''curasync'', ''push'']"
  by (simp add: invokes_def isOptionArg_def index_def pushFound_def exampleWorld_def)

lemma pushFound_fields:
  "stdin pushFound = [''y'']" "pgrepExit pushFound = 0" "pgrepStdout pushFound = ''4242\<newline>''"
  "killExit pushFound = 0" "diffIndexExit pushFound = 0" "\<not> notRunning pushFound"
  by (simp_all add: pushFound_def exampleWorld_def notRunning_def)

lemma pushTwoPids_passes: "startupPasses pushTwoPids exampleDirectory"
  by (rule example_startup) (simp_all add: pushTwoPids_def exampleWorld_def)

lemma pushTwoPids_invokes: "invokes pushTwoPids ''push'' [''bun'', ''curasync'', ''push'']"
  by (simp add: invokes_def isOptionArg_def index_def pushTwoPids_def exampleWorld_def)

lemma pushTwoPids_fields:
  "stdin pushTwoPids = []" "pgrepExit pushTwoPids = 0"
  "pgrepStdout pushTwoPids = ''4242\<newline>4343\<newline>''"
  "diffIndexExit pushTwoPids = 0" "\<not> notRunning pushTwoPids"
  by (simp_all add: pushTwoPids_def exampleWorld_def notRunning_def)

lemma pushTwoPids_run:
  "run pushTwoPids =
     (Throw NoProcessNumber,
      \<lparr>lines = [], trace = startupEvents exampleDirectory @ [Pgrep]\<rparr>)"
proof -
  have "pushGuard pushTwoPids \<lparr>lines = [], trace = startupEvents exampleDirectory\<rparr> =
      (Throw NoProcessNumber, \<lparr>lines = [], trace = startupEvents exampleDirectory @ [Pgrep]\<rparr>)"
    by (simp add: pushGuard_def bnd_def getCuraPid_eq pushTwoPids_fields two_pids_not_a_number)
  from mainPush_clean [OF _ this, of "globalsOf pushTwoPids exampleDirectory"]
  show ?thesis
    using run_push [OF pushTwoPids_passes pushTwoPids_invokes]
    by (simp add: pushTwoPids_fields)
qed

text \<open>
  Claim C3, as amended. Take a \<open>push\<close> invocation that passes the module-level checks,
  with a working copy that the check for changes does not report as dirty (the exit code
  of \<open>git diff-index --exit-code HEAD\<close> is not 1; it is 0 when the working copy matches
  the last commit). The branch first looks the companion application up, and the run is
  determined by what the lookup and the user answer.

  \<^item> The lookup reports that the application is not running, or it returns the process
    identifier 0: the run goes on to the check for changes, prints that there is nothing
    to push and exits with code 1.
  \<^item> The lookup returns a process identifier and the user, asked whether to quit the
    application, answers no: the same. The user answers yes or with an empty line: the
    termination signal is sent; when it is delivered the run pauses, goes on to the check,
    prints the message and exits with code 1; when it fails the run ends there with the
    uncaught error output of \<open>kill\<close>. The user never answers: the run waits.
  \<^item> The lookup exits with code 0 and its output is not a number (two matching processes,
    for example), or it exits in another unexpected way: the run ends at the lookup with
    the uncaught error \<open>No process number returned\<close> or \<open>pgrep Cura returned something
    weird\<close>, without the message.

  In every case the message and the exit are the last things the run does, and the run
  starts no stage, commit or push subprocess and changes nothing on disk.
\<close>

theorem push_nothing_to_push:
  assumes "startupPasses w dir" and "invokes w ''push'' ps" and "diffIndexExit w \<noteq> 1"
  shows "run w =
     (let pid = Number (trim (pgrepStdout w));
          s0 = \<lparr>lines = stdin w, trace = startupEvents dir @ [Pgrep]\<rparr>;
          nothing = [DiffIndex dir, ConsoleError nothingToPush]
      in if notRunning w then (Exit 1, s0\<lparr>trace := trace s0 @ nothing\<rparr>)
         else if pgrepExit w \<noteq> 0 then
           (Throw PgrepWeird,
            s0\<lparr>trace := trace s0
                 @ [LogShellOutput (pgrepExit w) (pgrepStdout w) (pgrepStderr w)]\<rparr>)
         else if pid = JNaN then (Throw NoProcessNumber, s0)
         else if \<not> truthy pid then (Exit 1, s0\<lparr>trace := trace s0 @ nothing\<rparr>)
         else
           (case confirm quitPrompt (Some Yes) s0 of
              (Ret quitCura, s1) \<Rightarrow>
                if quitCura \<noteq> Some Yes then (Exit 1, s1\<lparr>trace := trace s1 @ nothing\<rparr>)
                else if killExit w \<noteq> 0 then
                  (Throw (KillFailed (killStderr w)), s1\<lparr>trace := trace s1 @ [Kill pid]\<rparr>)
                else (Exit 1, s1\<lparr>trace := trace s1 @ [Kill pid, Sleep 1000] @ nothing\<rparr>)
            | (unanswered, s1) \<Rightarrow> (Blocked, s1)))
   \<and> \<not> list_ex mutating (trace (snd (run w)))"
proof -
  let ?start = "\<lparr>lines = stdin w, trace = startupEvents dir\<rparr>"
  let ?s0 = "\<lparr>lines = stdin w, trace = startupEvents dir @ [Pgrep]\<rparr>"
  let ?g = "globalsOf w dir"
  let ?pid = "Number (trim (pgrepStdout w))"
  obtain r s1 where g: "pushGuard w ?start = (r, s1)" by (cases "pushGuard w ?start")
  obtain pre where pre: "trace s1 = startupEvents dir @ pre" "list_all guardEvent pre"
    using emitsD [OF emits_pushGuard g] by auto
  have run: "run w =
     (case r of
        Ret x \<Rightarrow> (Exit 1, s1\<lparr>trace := trace s1 @ [DiffIndex dir, ConsoleError nothingToPush]\<rparr>)
      | Exit n \<Rightarrow> (Exit n, s1) | Throw e \<Rightarrow> (Throw e, s1) | Blocked \<Rightarrow> (Blocked, s1))"
    using run_push [OF assms(1,2)] mainPush_clean [OF assms(3) g, of ?g]
    by (cases r) (simp_all add: globalsOf_def)
  have nm: "\<not> mutating e" if "guardEvent e" for e
    using that by (cases e) auto
  have 2: "\<not> list_ex mutating (trace (snd (run w)))"
    using run pre nm
    by (cases r) (auto simp: startupEvents_def list_ex_iff list_all_iff)
  obtain r2 s2 where c: "confirm quitPrompt (Some Yes) ?s0 = (r2, s2)"
    by (cases "confirm quitPrompt (Some Yes) ?s0")
  have r2: "r2 = Blocked \<or> (\<exists>a. r2 = Ret a)"
    using confirm_outcome [OF c] by auto
  have guard: "pushGuard w ?start =
     (if notRunning w then (Ret (), ?s0)
      else if pgrepExit w \<noteq> 0 then
        (Throw PgrepWeird,
         ?s0\<lparr>trace := trace ?s0
              @ [LogShellOutput (pgrepExit w) (pgrepStdout w) (pgrepStderr w)]\<rparr>)
      else if ?pid = JNaN then (Throw NoProcessNumber, ?s0)
      else if \<not> truthy ?pid then (Ret (), ?s0)
      else
        (case r2 of
           Ret a \<Rightarrow>
             if a \<noteq> Some Yes then (Ret (), s2)
             else if killExit w \<noteq> 0 then
               (Throw (KillFailed (killStderr w)), s2\<lparr>trace := trace s2 @ [Kill ?pid]\<rparr>)
             else (Ret (), s2\<lparr>trace := trace s2 @ [Kill ?pid, Sleep 1000]\<rparr>)
         | Exit n \<Rightarrow> (Blocked, s2) | Throw e \<Rightarrow> (Blocked, s2) | Blocked \<Rightarrow> (Blocked, s2)))"
  proof (cases "\<not> notRunning w \<and> pgrepExit w = 0 \<and> ?pid \<noteq> JNaN \<and> truthy ?pid")
    case True
    then have "pushGuard w ?start =
       (case r2 of
          Ret a \<Rightarrow>
            if a = Some Yes then
              (if killExit w \<noteq> 0
               then (Throw (KillFailed (killStderr w)), s2\<lparr>trace := trace s2 @ [Kill ?pid]\<rparr>)
               else (Ret (), s2\<lparr>trace := trace s2 @ [Kill ?pid, Sleep 1000]\<rparr>))
            else (Ret (), s2)
        | Exit n \<Rightarrow> (Exit n, s2) | Throw e \<Rightarrow> (Throw e, s2) | Blocked \<Rightarrow> (Blocked, s2))"
      using c by (intro pushGuard_found) simp_all
    then show ?thesis using True r2 by auto
  next
    case False
    then show ?thesis
      by (auto simp: pushGuard_def bnd_def getCuraPid_eq ret_def emit_def)
  qed
  have 1: "run w =
     (let pid = Number (trim (pgrepStdout w));
          s0 = \<lparr>lines = stdin w, trace = startupEvents dir @ [Pgrep]\<rparr>;
          nothing = [DiffIndex dir, ConsoleError nothingToPush]
      in if notRunning w then (Exit 1, s0\<lparr>trace := trace s0 @ nothing\<rparr>)
         else if pgrepExit w \<noteq> 0 then
           (Throw PgrepWeird,
            s0\<lparr>trace := trace s0
                 @ [LogShellOutput (pgrepExit w) (pgrepStdout w) (pgrepStderr w)]\<rparr>)
         else if pid = JNaN then (Throw NoProcessNumber, s0)
         else if \<not> truthy pid then (Exit 1, s0\<lparr>trace := trace s0 @ nothing\<rparr>)
         else
           (case confirm quitPrompt (Some Yes) s0 of
              (Ret quitCura, s1) \<Rightarrow>
                if quitCura \<noteq> Some Yes then (Exit 1, s1\<lparr>trace := trace s1 @ nothing\<rparr>)
                else if killExit w \<noteq> 0 then
                  (Throw (KillFailed (killStderr w)), s1\<lparr>trace := trace s1 @ [Kill pid]\<rparr>)
                else (Exit 1, s1\<lparr>trace := trace s1 @ [Kill pid, Sleep 1000] @ nothing\<rparr>)
            | (unanswered, s1) \<Rightarrow> (Blocked, s1)))"
    using run g guard c r2 by (auto simp: Let_def split: if_splits)
  from 1 2 show ?thesis by blast
qed

theorem push_nothing_to_push_witness:
  "run pushFound =
     (Exit 1,
      \<lparr>lines = [],
       trace = startupEvents exampleDirectory
               @ [Pgrep, Question (confirmPrompt quitPrompt (Some Yes)), Kill (JNum 4242),
                  Sleep 1000, DiffIndex exampleDirectory, ConsoleError nothingToPush]\<rparr>)
   \<and> \<not> list_ex mutating (trace (snd (run pushFound)))"
proof -
  have clean: "diffIndexExit pushFound \<noteq> 1"
    by (simp add: pushFound_fields)
  have pid: "truthy (JNum 4242)"
    by (simp add: truthy_def)
  from push_nothing_to_push [OF pushFound_passes pushFound_invokes clean] pid
  show ?thesis
    by (simp add: pushFound_fields example_pid confirm_y Let_def startupEvents_def)
qed

text \<open>
  Claim C3 as stated fails: with a clean working copy and two instances of the
  companion application running, the lookup prints two process identifiers, and
  \<open>push\<close> ends at the lookup with the uncaught error \<open>No process number returned\<close>. It
  does not reach the check for changes, prints no message and does not call
  \<open>process.exit(1)\<close>.
\<close>

theorem push_two_pids_counterexample:
  "diffIndexExit pushTwoPids = 0
   \<and> run pushTwoPids =
       (Throw NoProcessNumber,
        \<lparr>lines = [], trace = startupEvents exampleDirectory @ [Pgrep]\<rparr>)"
  by (simp add: pushTwoPids_run pushTwoPids_fields)

section \<open>The process lookup\<close>

subsection \<open>\<open>Number\<close> of the output of the lookup\<close>

lemma stripLeading_none:
  assumes "\<And>p. p \<in> set ps \<Longrightarrow> p = [] \<or> \<not> startsWith s p"
  shows "stripLeading ps s = s"
proof -
  have "find (\<lambda>p. p \<noteq> [] \<and> startsWith s p) ps = None"
    using assms by (auto simp: find_None_iff)
  then show ?thesis by (subst stripLeading.simps) simp
qed

lemma stripLeading_head:
  assumes "\<And>p. p \<in> set ps \<Longrightarrow> p \<noteq> [] \<Longrightarrow> hd p \<noteq> c"
  shows "stripLeading ps (c # cs) = c # cs"
proof (rule stripLeading_none)
  fix p assume p: "p \<in> set ps"
  show "p = [] \<or> \<not> startsWith (c # cs) p"
  proof (cases p)
    case Nil
    then show ?thesis by simp
  next
    case (Cons a q)
    then have "a \<noteq> c" using assms [OF p] by simp
    then show ?thesis using Cons by (simp add: startsWith_def)
  qed
qed

lemma whitespace_head: "decimalDigit c \<Longrightarrow> p \<in> set whitespace \<Longrightarrow> p \<noteq> [] \<Longrightarrow> hd p \<noteq> c"
  by (auto simp: whitespace_def decimalDigit_def)

lemma whitespace_last:
  "decimalDigit c \<Longrightarrow> p \<in> set (map rev whitespace) \<Longrightarrow> p \<noteq> [] \<Longrightarrow> hd p \<noteq> c"
  by (auto simp: whitespace_def decimalDigit_def)

lemma trimStart_digit:
  assumes "s \<noteq> []" and "decimalDigit (hd s)"
  shows "trimStart s = s"
proof -
  obtain c cs where s: "s = c # cs" using assms(1) by (cases s) auto
  then have "decimalDigit c" using assms(2) by simp
  then show ?thesis
    unfolding trimStart_def s by (intro stripLeading_head whitespace_head)
qed

lemma stripTrailing_digit:
  assumes "s \<noteq> []" and "decimalDigit (last s)"
  shows "stripLeading (map rev whitespace) (rev s) = rev s"
proof -
  have r: "rev s = last s # rev (butlast s)"
    using assms(1) by (metis append_butlast_last_id rev.simps(2) rev_rev_ident rev_swap)
  show ?thesis
    unfolding r using assms(2) by (intro stripLeading_head whitespace_last)
qed

lemma trimEnd_digit:
  assumes "s \<noteq> []" and "decimalDigit (last s)"
  shows "trimEnd s = s"
  by (simp add: trimEnd_def stripTrailing_digit [OF assms])

lemma trimEnd_newline:
  assumes "s \<noteq> []" and "decimalDigit (last s)"
  shows "trimEnd (s @ ''\<newline>'') = s"
proof -
  have "find (\<lambda>p. p \<noteq> [] \<and> startsWith (CHR ''\<newline>'' # rev s) p) (map rev whitespace)
        = Some ''\<newline>''"
    by (simp add: whitespace_def startsWith_def)
  then have "stripLeading (map rev whitespace) (CHR ''\<newline>'' # rev s)
      = stripLeading (map rev whitespace) (rev s)"
    by (subst stripLeading.simps) simp
  then show ?thesis
    by (simp add: trimEnd_def stripTrailing_digit [OF assms])
qed

lemma trim_digits:
  assumes "s \<noteq> []" and "decimalDigit (hd s)" and "decimalDigit (last s)"
  shows "trim s = s" and "trim (s @ ''\<newline>'') = s"
proof -
  show "trim s = s"
    by (simp add: trim_def trimStart_digit [OF assms(1,2)] trimEnd_digit [OF assms(1,3)])
  have "trimStart (s @ ''\<newline>'') = s @ ''\<newline>''"
    using assms(1,2) by (intro trimStart_digit) simp_all
  then show "trim (s @ ''\<newline>'') = s"
    by (simp add: trim_def trimEnd_newline [OF assms(1,3)])
qed

lemma digitOf_digit: "k < 10 \<Longrightarrow> digitOf (''0123456789'' ! k) = Some k"
proof -
  assume "k < 10"
  then consider "k = 0" | "k = 1" | "k = 2" | "k = 3" | "k = 4" | "k = 5" | "k = 6"
    | "k = 7" | "k = 8" | "k = 9" by atomize_elim arith
  then show ?thesis
    by cases (simp_all add: digitOf_def)
qed

lemma digitsValue_append:
  "digitsValue b (xs @ ys) acc =
     (case digitsValue b xs acc of None \<Rightarrow> None | Some a \<Rightarrow> digitsValue b ys a)"
  by (induction xs arbitrary: acc) (auto split: option.splits)

lemma digitsValue_stringOfNat: "digitsValue 10 (stringOfNat n) 0 = Some n"
proof (induction n rule: stringOfNat.induct)
  case (1 n)
  show ?case
  proof (cases "n < 10")
    case True
    then show ?thesis
      by (subst stringOfNat.simps) (simp add: digitOf_digit)
  next
    case False
    have "n mod 10 < 10" by simp
    then show ?thesis using False 1
      by (subst stringOfNat.simps) (simp add: digitsValue_append digitOf_digit)
  qed
qed

lemma digitsValue_bad:
  "c \<in> set s \<Longrightarrow> digitOf c = None \<Longrightarrow> digitsValue b s acc = None"
  by (induction s arbitrary: acc) (auto split: option.splits)

lemma startsWith_set: "startsWith s p \<Longrightarrow> set p \<subseteq> set s"
  unfolding startsWith_def using set_take_subset [of "length p" s] by auto

lemma Number_lines:
  assumes "trim s = s" and "s \<noteq> []" and "set s \<subseteq> set ''0123456789\<newline>''"
  shows "Number s =
     (case digitsValue 10 s 0 of None \<Rightarrow> JNaN | Some n \<Rightarrow> roundNumber (of_nat n))"
proof -
  have no: "\<not> startsWith s p" if "c \<in> set p" "c \<notin> set ''0123456789\<newline>''" for p c
    using startsWith_set [of s p] that assms(3) by blast
  have prefixes: "\<not> startsWith s ''0x''" "\<not> startsWith s ''0X''" "\<not> startsWith s ''0o''"
    "\<not> startsWith s ''0O''" "\<not> startsWith s ''0b''" "\<not> startsWith s ''0B''"
    "\<not> startsWith s ''-''" "\<not> startsWith s ''+''"
    by (rule no [of "CHR ''x''"], simp, simp)
       (rule no [of "CHR ''X''"], simp, simp,
        rule no [of "CHR ''o''"], simp, simp,
        rule no [of "CHR ''O''"], simp, simp,
        rule no [of "CHR ''b''"], simp, simp,
        rule no [of "CHR ''B''"], simp, simp,
        rule no [of "CHR ''-''"], simp, simp,
        rule no [of "CHR ''+''"], simp, simp)
  have inf: "s \<noteq> ''Infinity''"
    using assms(3) by auto
  have e: "takeWhile (\<lambda>c. c \<noteq> CHR ''e'' \<and> c \<noteq> CHR ''E'') s = s"
    using assms(3) by (auto simp: takeWhile_eq_all_conv)
  have p: "takeWhile (\<lambda>c. c \<noteq> CHR ''.'') s = s"
    using assms(3) by (auto simp: takeWhile_eq_all_conv)
  have "unsignedDecimal s = map_option of_nat (digitsValue 10 s 0)"
    using assms(2) by (simp add: unsignedDecimal_def e p split: option.splits)
  then show ?thesis
    using assms(1,2) prefixes inf
    by (simp add: Number_def strDecimalLiteral_def split: option.splits)
qed

lemma stringOfNat_hd: "decimalDigit (hd (stringOfNat n))"
  using stringOfNat_digits [of n] stringOfNat_not_empty [of n] hd_in_set [of "stringOfNat n"]
  unfolding decimalDigit_def by blast

lemma stringOfNat_last: "decimalDigit (last (stringOfNat n))"
  using stringOfNat_digits [of n] stringOfNat_not_empty [of n] last_in_set [of "stringOfNat n"]
  unfolding decimalDigit_def by blast

text \<open>The lines of the lookup's output without the last line feed.\<close>

lemma pgrepOutput_lines:
  "pgrepOutput (p # ps) =
     (stringOfNat p @ concat (map (\<lambda>q. ''\<newline>'' @ stringOfNat q) ps)) @ ''\<newline>''"
  by (induction ps arbitrary: p) (simp_all add: pgrepOutput_def)

lemma lines_not_empty:
  "stringOfNat p @ concat (map (\<lambda>q. ''\<newline>'' @ stringOfNat q) ps) \<noteq> []"
  using stringOfNat_not_empty [of p] by simp

lemma lines_hd:
  "decimalDigit (hd (stringOfNat p @ concat (map (\<lambda>q. ''\<newline>'' @ stringOfNat q) ps)))"
  using stringOfNat_hd [of p] stringOfNat_not_empty [of p] by simp

lemma lines_last:
  "decimalDigit (last (stringOfNat p @ concat (map (\<lambda>q. ''\<newline>'' @ stringOfNat q) ps)))"
proof (induction ps rule: rev_induct)
  case Nil
  then show ?case using stringOfNat_last [of p] by simp
next
  case (snoc q qs)
  then show ?case
    using stringOfNat_last [of q] stringOfNat_not_empty [of q] by simp
qed

lemma lines_chars:
  "set (stringOfNat p @ concat (map (\<lambda>q. ''\<newline>'' @ stringOfNat q) ps))
     \<subseteq> set ''0123456789\<newline>''"
proof -
  define D where "D = set ''0123456789\<newline>''"
  have e: "''0123456789\<newline>'' = ''0123456789'' @ ''\<newline>''" by simp
  have d: "set (stringOfNat q) \<subseteq> D" for q
    unfolding D_def e set_append using stringOfNat_digits [of q] by blast
  have n: "CHR ''\<newline>'' \<in> D" by (simp add: D_def)
  have "set (concat (map (\<lambda>q. ''\<newline>'' @ stringOfNat q) ps)) \<subseteq> D"
    using d n by (induction ps) simp_all
  then have "set (stringOfNat p @ concat (map (\<lambda>q. ''\<newline>'' @ stringOfNat q) ps)) \<subseteq> D"
    using d [of p] by simp
  then show ?thesis by (simp only: D_def)
qed

lemma lines_newline:
  "ps \<noteq> [] \<Longrightarrow>
   CHR ''\<newline>'' \<in> set (stringOfNat p @ concat (map (\<lambda>q. ''\<newline>'' @ stringOfNat q) ps))"
  by (cases ps) simp_all

lemma Number_pgrepOutput:
  assumes "pids \<noteq> []"
  shows "Number (trim (pgrepOutput pids)) =
     (if length pids = 1 then roundNumber (of_nat (hd pids)) else JNaN)"
proof -
  obtain p ps where pids: "pids = p # ps" using assms by (cases pids) auto
  let ?body = "stringOfNat p @ concat (map (\<lambda>q. ''\<newline>'' @ stringOfNat q) ps)"
  note shape = lines_not_empty [of p ps] lines_hd [of p ps] lines_last [of p ps]
    lines_chars [of p ps] lines_newline [of ps p]
  have t: "trim (pgrepOutput pids) = ?body"
    unfolding pids pgrepOutput_lines by (rule trim_digits(2) [OF shape(1,2,3)])
  have n: "Number ?body =
     (case digitsValue 10 ?body 0 of None \<Rightarrow> JNaN | Some n \<Rightarrow> roundNumber (of_nat n))"
    by (rule Number_lines [OF trim_digits(1) [OF shape(1,2,3)] shape(1,4)])
  show ?thesis
  proof (cases "ps = []")
    case True
    then show ?thesis using t n by (simp add: pids digitsValue_stringOfNat)
  next
    case False
    have "digitOf (CHR ''\<newline>'') = None" by (simp add: digitOf_def)
    then have "digitsValue 10 ?body 0 = None"
      using digitsValue_bad [OF shape(5) [OF False]] by simp
    then show ?thesis using t n False by (simp add: pids)
  qed
qed

lemma roundNumber_not_NaN: "roundNumber v \<noteq> JNaN"
  by (simp add: roundNumber_def)

subsection \<open>The outcomes of \<open>getCuraPid\<close>\<close>

lemma pushFound_output: "pgrepStdout pushFound = pgrepOutput [4242]"
  by (simp add: pushFound_fields pgrepOutput_def stringOfNat.simps)

lemma pushTwoPids_output: "pgrepStdout pushTwoPids = pgrepOutput [4242, 4343]"
  by (simp add: pushTwoPids_fields pgrepOutput_def stringOfNat.simps)

text \<open>
  Claim C10. What \<open>getCuraPid\<close> returns, for every answer of the lookup.

  \<^item> It returns \<open>null\<close> exactly when the lookup exits with code 1 and prints nothing, on
    either stream.
  \<^item> It returns a number exactly when the lookup exits with code 0 and the trimmed
    output parses as a number, that is \<open>Number\<close> of it is not NaN; the number returned is
    that value.
  \<^item> It throws \<open>No process number returned\<close> exactly when the lookup exits with code 0
    and the trimmed output does not parse as a number.
  \<^item> It throws \<open>pgrep Cura returned something weird\<close> in every other case.

  And for the output that \<open>pgrep\<close> gives when it exits with code 0, one decimal process
  identifier on each line for each process matched: with one matching process
  \<open>getCuraPid\<close> returns its identifier (\<open>roundNumber\<close> leaves every natural number
  within the range of a JavaScript number as it is), and with two or more it throws
  \<open>No process number returned\<close> and returns no identifier.
\<close>

theorem getCuraPid_lookup:
  "(fst (getCuraPid w s) = Ret None \<longleftrightarrow>
      pgrepExit w = 1 \<and> pgrepStdout w = [] \<and> pgrepStderr w = [])
   \<and> (fst (getCuraPid w s) = Ret (Some n) \<longleftrightarrow>
        pgrepExit w = 0 \<and> n = Number (trim (pgrepStdout w)) \<and> n \<noteq> JNaN)
   \<and> (fst (getCuraPid w s) = Throw NoProcessNumber \<longleftrightarrow>
        pgrepExit w = 0 \<and> Number (trim (pgrepStdout w)) = JNaN)
   \<and> (fst (getCuraPid w s) = Throw PgrepWeird \<longleftrightarrow>
        pgrepExit w \<noteq> 0 \<and> (pgrepExit w = 1 \<longrightarrow> pgrepStdout w \<noteq> [] \<or> pgrepStderr w \<noteq> []))
   \<and> (pgrepExit w = 0 \<and> pids \<noteq> [] \<and> pgrepStdout w = pgrepOutput pids \<longrightarrow>
        fst (getCuraPid w s) =
          (if length pids = 1 then Ret (Some (roundNumber (of_nat (hd pids))))
           else Throw NoProcessNumber))"
proof -
  have "fst (getCuraPid w s) =
          (if length pids = 1 then Ret (Some (roundNumber (of_nat (hd pids))))
           else Throw NoProcessNumber)"
    if "pgrepExit w = 0" "pids \<noteq> []" "pgrepStdout w = pgrepOutput pids"
    using that Number_pgrepOutput [OF that(2)]
    by (simp add: getCuraPid_eq notRunning_def roundNumber_not_NaN)
  moreover have "(fst (getCuraPid w s) = Ret None \<longleftrightarrow>
      pgrepExit w = 1 \<and> pgrepStdout w = [] \<and> pgrepStderr w = [])
   \<and> (fst (getCuraPid w s) = Ret (Some n) \<longleftrightarrow>
        pgrepExit w = 0 \<and> n = Number (trim (pgrepStdout w)) \<and> n \<noteq> JNaN)
   \<and> (fst (getCuraPid w s) = Throw NoProcessNumber \<longleftrightarrow>
        pgrepExit w = 0 \<and> Number (trim (pgrepStdout w)) = JNaN)
   \<and> (fst (getCuraPid w s) = Throw PgrepWeird \<longleftrightarrow>
        pgrepExit w \<noteq> 0 \<and> (pgrepExit w = 1 \<longrightarrow> pgrepStdout w \<noteq> [] \<or> pgrepStderr w \<noteq> []))"
    by (auto simp: getCuraPid_eq notRunning_def)
  ultimately show ?thesis by blast
qed

theorem getCuraPid_lookup_witness:
  "fst (getCuraPid pushTwoPids \<lparr>lines = [], trace = []\<rparr>) = Throw NoProcessNumber
   \<and> fst (getCuraPid pushFound \<lparr>lines = [], trace = []\<rparr>) = Ret (Some (JNum 4242))"
proof -
  have two: "pgrepExit pushTwoPids = 0 \<and> [4242, 4343] \<noteq> ([] :: nat list)
      \<and> pgrepStdout pushTwoPids = pgrepOutput [4242, 4343]"
    by (simp add: pushTwoPids_fields(2) pushTwoPids_output)
  have one: "pgrepExit pushFound = 0 \<and> [4242] \<noteq> ([] :: nat list)
      \<and> pgrepStdout pushFound = pgrepOutput [4242]"
    by (simp add: pushFound_fields(2) pushFound_output)
  have r: "roundNumber (of_nat 4242) = JNum 4242"
    by (simp add: roundNumber_def)
  from getCuraPid_lookup [of pushTwoPids "\<lparr>lines = [], trace = []\<rparr>" JNaN "[4242, 4343]"] two
    getCuraPid_lookup [of pushFound "\<lparr>lines = [], trace = []\<rparr>" JNaN "[4242]"] one r
  show ?thesis by simp
qed

end
